theory Spec2Isabelle
  imports Main
begin

section \<open>JSON values and the JavaScript operations the server applies to them\<close>

text \<open>
  Both servers work on what \<^verbatim>\<open>JSON.parse\<close> returns and answer with objects that are
  serialised again. A value is modelled as follows.
  \<^item> An object is the list of its own properties in \<^verbatim>\<open>Object.keys\<close> order; the parser
    leaves every key once, and a lookup takes the first entry of a key.
  \<^item> A number carries the text JavaScript prints for it (\<open>''4.2''\<close>, \<open>''-32600''\<close>), zero
    being \<open>''0''\<close>: the servers only test numbers for truthiness and print them.
  \<^item> Text is a list of 8-bit characters, the UTF-8 bytes of the source text. Lengths and
    lower-casing are exact on ASCII text. The header that the HTTP variant trims is given
    by its code units instead.
  A property that is absent reads as \<^verbatim>\<open>undefined\<close>, which is \<open>None\<close> here.
\<close>

datatype json =
    JNull
  | JBool bool
  | JNum string
  | JStr string
  | JArr "json list"
  | JObj "(string \<times> json) list"

text \<open>
  The exceptions: \<^verbatim>\<open>JSON.parse\<close> raises a \<^verbatim>\<open>SyntaxError\<close> on a line that is not JSON,
  and everything a handler can raise is a \<^verbatim>\<open>TypeError\<close>.
\<close>

datatype error = TypeError | SyntaxError

text \<open>Truthiness (\<^verbatim>\<open>!x\<close>, \<^verbatim>\<open>x || d\<close>, \<^verbatim>\<open>if (x)\<close>).\<close>

fun truthy :: "json \<Rightarrow> bool" where
  "truthy JNull = False"
| "truthy (JBool b) = b"
| "truthy (JNum n) = (n \<noteq> ''0'')"
| "truthy (JStr s) = (s \<noteq> [])"
| "truthy (JArr xs) = True"
| "truthy (JObj kvs) = True"

fun truthy_opt :: "json option \<Rightarrow> bool" where
  "truthy_opt None = False"
| "truthy_opt (Some v) = truthy v"

text \<open>
  \<^verbatim>\<open>v.k\<close> on a value that is neither \<^verbatim>\<open>null\<close> nor \<^verbatim>\<open>undefined\<close>, for the property
  names the handlers read from their input (\<^verbatim>\<open>jsonrpc\<close>, \<^verbatim>\<open>method\<close>, \<^verbatim>\<open>params\<close>,
  \<^verbatim>\<open>id\<close>, \<^verbatim>\<open>name\<close>, \<^verbatim>\<open>arguments\<close>, \<^verbatim>\<open>category\<close>, \<^verbatim>\<open>nodeName\<close>, \<^verbatim>\<open>query\<close>,
  \<^verbatim>\<open>workflowType\<close>, \<^verbatim>\<open>customName\<close>, \<^verbatim>\<open>templateName\<close>, \<^verbatim>\<open>workflow\<close>, \<^verbatim>\<open>nodes\<close>,
  \<^verbatim>\<open>connections\<close>, \<^verbatim>\<open>type\<close>, \<^verbatim>\<open>position\<close>, \<^verbatim>\<open>typeVersion\<close>): none of them is
  inherited from a prototype, so only an object's own property can answer.
\<close>

fun get :: "json \<Rightarrow> string \<Rightarrow> json option" where
  "get (JObj kvs) k = map_of kvs k"
| "get v k = None"

text \<open>\<^verbatim>\<open>v?.k\<close>: \<^verbatim>\<open>undefined\<close> when \<open>v\<close> is \<^verbatim>\<open>undefined\<close> or \<^verbatim>\<open>null\<close>.\<close>

fun get_opt :: "json option \<Rightarrow> string \<Rightarrow> json option" where
  "get_opt None k = None"
| "get_opt (Some v) k = get v k"

text \<open>\<^verbatim>\<open>const { a, b } = v\<close> throws when \<open>v\<close> is \<^verbatim>\<open>undefined\<close> or \<^verbatim>\<open>null\<close>.\<close>

fun destructurable :: "json option \<Rightarrow> bool" where
  "destructurable None = False"
| "destructurable (Some JNull) = False"
| "destructurable (Some v) = True"

text \<open>\<^verbatim>\<open>typeof v === 'object'\<close> holds of objects, arrays and \<^verbatim>\<open>null\<close>.\<close>

fun typeof_object :: "json \<Rightarrow> bool" where
  "typeof_object JNull = True"
| "typeof_object (JArr xs) = True"
| "typeof_object (JObj kvs) = True"
| "typeof_object v = False"

fun isArray :: "json option \<Rightarrow> bool" where
  "isArray (Some (JArr xs)) = True"
| "isArray v = False"

subsection \<open>Strings\<close>

text \<open>Decimal digits of a length or an index.\<close>

fun show_nat :: "nat \<Rightarrow> string" where
  "show_nat n =
     (if n < 10 then [''0123456789'' ! n]
      else show_nat (n div 10) @ [''0123456789'' ! (n mod 10)])"

declare show_nat.simps [simp del]

text \<open>\<^verbatim>\<open>xs.join(sep)\<close> on an array of strings.\<close>

fun join :: "string \<Rightarrow> string list \<Rightarrow> string" where
  "join sep [] = []"
| "join sep [x] = x"
| "join sep (x # y # ys) = x @ sep @ join sep (y # ys)"

text \<open>\<^verbatim>\<open>s.toLowerCase()\<close>; bytes outside \<open>A\<close>..\<open>Z\<close> stay as they are.\<close>

definition lower_char :: "char \<Rightarrow> char" where
  "lower_char c =
     (let n = of_char c :: nat in if 65 \<le> n \<and> n \<le> 90 then char_of (n + 32) else c)"

definition toLowerCase :: "string \<Rightarrow> string" where
  "toLowerCase s = map lower_char s"

text \<open>\<^verbatim>\<open>s.startsWith(p)\<close> and \<^verbatim>\<open>s.includes(t)\<close>.\<close>

fun startsWith :: "'a list \<Rightarrow> 'a list \<Rightarrow> bool" where
  "startsWith s [] = True"
| "startsWith [] (p # ps) = False"
| "startsWith (c # cs) (p # ps) = (c = p \<and> startsWith cs ps)"

fun includes_str :: "string \<Rightarrow> string \<Rightarrow> bool" where
  "includes_str [] t = (t = [])"
| "includes_str (c # cs) t = (startsWith (c # cs) t \<or> includes_str cs t)"

text \<open>
  \<^verbatim>\<open>String(v)\<close>, as a template literal, a string concatenation and a property key apply
  it. An array joins its elements with commas, \<^verbatim>\<open>null\<close> elements giving the empty
  string. An object prints as \<^verbatim>\<open>[object Object]\<close> through the inherited \<^verbatim>\<open>toString\<close>;
  an own property of that name is never callable in parsed JSON, and the conversion then
  throws.
\<close>

fun sequence :: "(error + 'a) list \<Rightarrow> error + 'a list" where
  "sequence [] = Inr []"
| "sequence (Inl e # rs) = Inl e"
| "sequence (Inr x # rs) = (case sequence rs of Inl e \<Rightarrow> Inl e | Inr xs \<Rightarrow> Inr (x # xs))"

fun ToString :: "json \<Rightarrow> error + string" where
  "ToString JNull = Inr ''null''"
| "ToString (JBool b) = Inr (if b then ''true'' else ''false'')"
| "ToString (JNum n) = Inr n"
| "ToString (JStr s) = Inr s"
| "ToString (JArr xs) =
     (case sequence (map (\<lambda>x. if x = JNull then Inr [] else ToString x) xs) of
        Inl e \<Rightarrow> Inl e
      | Inr ss \<Rightarrow> Inr (join '','' ss))"
| "ToString (JObj kvs) =
     (if map_of kvs ''toString'' \<noteq> None then Inl TypeError else Inr ''[object Object]'')"

text \<open>\<^verbatim>\<open>x || d\<close>.\<close>

fun or_else :: "json option \<Rightarrow> json \<Rightarrow> json" where
  "or_else None d = d"
| "or_else (Some v) d = (if truthy v then v else d)"

subsection \<open>\<^verbatim>\<open>JSON.stringify(v, null, 2)\<close>\<close>

definition dq :: string where
  "dq = [CHR 0x22]"

definition backslash :: string where
  "backslash = [CHR 0x5C]"

text \<open>
  A string is quoted with the escapes of \<^verbatim>\<open>JSON.stringify\<close>: the double quote, the
  backslash, the five short control escapes, and \<^verbatim>\<open>\u00XX\<close> for the other characters
  below \<open>0x20\<close>.
\<close>

definition escape_char :: "char \<Rightarrow> string" where
  "escape_char c =
     (if c = CHR 0x22 then backslash @ dq
      else if c = CHR 0x5C then backslash @ backslash
      else if c = CHR 0x08 then backslash @ ''b''
      else if c = CHR 0x09 then backslash @ ''t''
      else if c = CHR 0x0A then backslash @ ''n''
      else if c = CHR 0x0C then backslash @ ''f''
      else if c = CHR 0x0D then backslash @ ''r''
      else if (of_char c :: nat) < 32 then
        backslash @ ''u00'' @ [''0123456789abcdef'' ! (of_char c div 16),
                               ''0123456789abcdef'' ! (of_char c mod 16)]
      else [c])"

definition quote :: "string \<Rightarrow> string" where
  "quote s = dq @ concat (map escape_char s) @ dq"

fun indent :: "nat \<Rightarrow> string" where
  "indent 0 = []"
| "indent (Suc d) = ''  '' @ indent d"

text \<open>
  The value at nesting depth \<open>d\<close>; \<open>items\<close> and \<open>members\<close> give the lines of an array
  and of an object one level deeper.
\<close>

fun stringify :: "nat \<Rightarrow> json \<Rightarrow> string"
  and items :: "nat \<Rightarrow> json list \<Rightarrow> string list"
  and members :: "nat \<Rightarrow> (string \<times> json) list \<Rightarrow> string list" where
  "stringify d JNull = ''null''"
| "stringify d (JBool b) = (if b then ''true'' else ''false'')"
| "stringify d (JNum n) = n"
| "stringify d (JStr s) = quote s"
| "stringify d (JArr xs) =
     (if xs = [] then ''[]''
      else ''[\<newline>'' @ join '',\<newline>'' (items (Suc d) xs) @ ''\<newline>'' @ indent d @ '']'')"
| "stringify d (JObj kvs) =
     (if kvs = [] then ''{}''
      else ''{\<newline>'' @ join '',\<newline>'' (members (Suc d) kvs) @ ''\<newline>'' @ indent d @ ''}'')"
| "items d [] = []"
| "items d (x # xs) = (indent d @ stringify d x) # items d xs"
| "members d [] = []"
| "members d ((k, v) # kvs) = (indent d @ quote k @ '': '' @ stringify d v) # members d kvs"

text \<open>\<^verbatim>\<open>JSON.stringify(undefined, null, 2)\<close> is \<^verbatim>\<open>undefined\<close>, which prints as such.\<close>

fun stringify_opt :: "json option \<Rightarrow> string" where
  "stringify_opt None = ''undefined''"
| "stringify_opt (Some v) = stringify 0 v"

subsection \<open>Lookup in an object literal\<close>

text \<open>
  \<^verbatim>\<open>table[key]\<close> on an object literal finds the literal's own entries and, after them,
  what every object inherits from \<^verbatim>\<open>Object.prototype\<close>: eleven functions, listed with
  the \<^verbatim>\<open>name\<close> each carries, and the accessor \<^verbatim>\<open>__proto__\<close>, which answers with the
  prototype object itself (it has no \<^verbatim>\<open>name\<close>). All twelve are truthy, and none of them
  has any property the tables' entries have.
\<close>

definition Object_prototype :: "(string \<times> string option) list" where
  "Object_prototype =
     [(''constructor'', Some ''Object''),
      (''__defineGetter__'', Some ''__defineGetter__''),
      (''__defineSetter__'', Some ''__defineSetter__''),
      (''hasOwnProperty'', Some ''hasOwnProperty''),
      (''__lookupGetter__'', Some ''__lookupGetter__''),
      (''__lookupSetter__'', Some ''__lookupSetter__''),
      (''isPrototypeOf'', Some ''isPrototypeOf''),
      (''propertyIsEnumerable'', Some ''propertyIsEnumerable''),
      (''toString'', Some ''toString''),
      (''valueOf'', Some ''valueOf''),
      (''__proto__'', None),
      (''toLocaleString'', Some ''toLocaleString'')]"

datatype 'a property = Own 'a | Inherited "string option" | Undefined

definition lookup :: "(string \<times> 'a) list \<Rightarrow> string \<Rightarrow> 'a property" where
  "lookup table k =
     (case map_of table k of
        Some v \<Rightarrow> Own v
      | None \<Rightarrow> (case map_of Object_prototype k of Some f \<Rightarrow> Inherited f | None \<Rightarrow> Undefined))"

section \<open>The stdio server\<close>

subsection \<open>Messages\<close>

text \<open>
  The messages are JSON objects, printed one per line. The request's \<^verbatim>\<open>id\<close> is called
  \<open>rid\<close> throughout.
\<close>

definition result_message :: "json \<Rightarrow> json \<Rightarrow> json" where
  "result_message r rid = JObj [(''jsonrpc'', JStr ''2.0''), (''result'', r), (''id'', rid)]"

definition error_message :: "string \<Rightarrow> string \<Rightarrow> json \<Rightarrow> json" where
  "error_message code message rid =
     JObj [(''jsonrpc'', JStr ''2.0''),
           (''error'', JObj [(''code'', JNum code), (''message'', JStr message)]),
           (''id'', rid)]"

definition text_content :: "string \<Rightarrow> json" where
  "text_content t = JObj [(''content'', JArr [JObj [(''type'', JStr ''text''), (''text'', JStr t)]])]"

subsection \<open>The server object\<close>

record MCPServer =
  tools :: "json list"

definition tool_table :: "json list" where
  "tool_table = [
      JObj [
        (''name'', JStr ''list_nodes''),
        (''description'', JStr ''List available n8n nodes''),
        (''inputSchema'', JObj [
          (''type'', JStr ''object''),
          (''properties'', JObj [
            (''category'', JObj [
              (''type'', JStr ''string''),
              (''description'', JStr ''Filter by node category'')])])])],
      JObj [
        (''name'', JStr ''get_node_info''),
        (''description'', JStr ''Get detailed information about a specific n8n node''),
        (''inputSchema'', JObj [
          (''type'', JStr ''object''),
          (''properties'', JObj [
            (''nodeName'', JObj [
              (''type'', JStr ''string''),
              (''description'', JStr ''Name of the node to get information for'')])]),
          (''required'', JArr [JStr ''nodeName''])])],
      JObj [
        (''name'', JStr ''search_nodes''),
        (''description'', JStr ''Search for n8n nodes by keyword''),
        (''inputSchema'', JObj [
          (''type'', JStr ''object''),
          (''properties'', JObj [
            (''query'', JObj [(''type'', JStr ''string''), (''description'', JStr ''Search query'')])]),
          (''required'', JArr [JStr ''query''])])],
      JObj [
        (''name'', JStr ''get_node_documentation''),
        (''description'', JStr ''Get detailed documentation for a specific n8n node''),
        (''inputSchema'', JObj [
          (''type'', JStr ''object''),
          (''properties'', JObj [
            (''nodeName'', JObj [
              (''type'', JStr ''string''),
              (''description'', JStr ''Name of the node to get documentation for'')])]),
          (''required'', JArr [JStr ''nodeName''])])],
      JObj [
        (''name'', JStr ''list_node_categories''),
        (''description'', JStr ''List all available n8n node categories''),
        (''inputSchema'', JObj [(''type'', JStr ''object''), (''properties'', JObj [])])],
      JObj [
        (''name'', JStr ''create_test_workflow''),
        (''description'', JStr ''Create a test workflow for validation and testing''),
        (''inputSchema'', JObj [
          (''type'', JStr ''object''),
          (''properties'', JObj [
            (''workflowType'', JObj [
              (''type'', JStr ''string''),
              (''description'', JStr ''Type of test workflow to create''),
              (''enum'', JArr [
                JStr ''webhook_to_slack'',
                JStr ''manual_to_http'',
                JStr ''schedule_to_email'',
                JStr ''ai_agent'',
                JStr ''data_processing''])]),
            (''customName'', JObj [
              (''type'', JStr ''string''),
              (''description'', JStr ''Custom name for the workflow'')])]),
          (''required'', JArr [JStr ''workflowType''])])],
      JObj [
        (''name'', JStr ''validate_workflow''),
        (''description'', JStr ''Validate a workflow structure and configuration''),
        (''inputSchema'', JObj [
          (''type'', JStr ''object''),
          (''properties'', JObj [
            (''workflow'', JObj [
              (''type'', JStr ''object''),
              (''description'', JStr ''Workflow object to validate'')])]),
          (''required'', JArr [JStr ''workflow''])])],
      JObj [
        (''name'', JStr ''get_workflow_template''),
        (''description'', JStr ''Get a pre-built workflow template''),
        (''inputSchema'', JObj [
          (''type'', JStr ''object''),
          (''properties'', JObj [
            (''templateName'', JObj [
              (''type'', JStr ''string''),
              (''description'', JStr ''Name of the template to get''),
              (''enum'', JArr [
                JStr ''webhook_slack'',
                JStr ''email_processor'',
                JStr ''data_sync'',
                JStr ''ai_chatbot'',
                JStr ''file_processor''])])]),
          (''required'', JArr [JStr ''templateName''])])]]"

definition new_MCPServer :: MCPServer where
  "new_MCPServer = \<lparr>tools = tool_table\<rparr>"

subsection \<open>Effects\<close>

text \<open>
  A method of the server runs on the server object \<open>this\<close>, which it could write to,
  and answers with what it did: the messages it sent, or the exception it raised before
  sending any, and the server object as it left it. \<^verbatim>\<open>sendMessage\<close> prints its message
  and writes nothing to the object; a \<^verbatim>\<open>TypeError\<close> leaves the object as it is.
\<close>

fun sendMessage :: "MCPServer \<Rightarrow> json \<Rightarrow> (error + json list) \<times> MCPServer" where
  "sendMessage this message = (Inr [message], this)"

subsection \<open>The handlers of the protocol methods\<close>

definition handleInitialize ::
  "MCPServer \<Rightarrow> json \<Rightarrow> (error + json list) \<times> MCPServer" where
  "handleInitialize this rid =
     sendMessage this (result_message
            (JObj [(''protocolVersion'', JStr ''2024-11-05''),
                   (''capabilities'', JObj [(''tools'', JObj [])]),
                   (''serverInfo'',
                      JObj [(''name'', JStr ''n8n-mcp-server''), (''version'', JStr ''2.7.20'')])])
            rid)"

definition handleToolsList ::
  "MCPServer \<Rightarrow> json \<Rightarrow> (error + json list) \<times> MCPServer" where
  "handleToolsList this rid =
     sendMessage this (result_message (JObj [(''tools'', JArr (tools this))]) rid)"

definition handleResourcesList ::
  "MCPServer \<Rightarrow> json \<Rightarrow> (error + json list) \<times> MCPServer" where
  "handleResourcesList this rid =
     sendMessage this (result_message (JObj [(''resources'', JArr [])]) rid)"

definition handlePromptsList ::
  "MCPServer \<Rightarrow> json \<Rightarrow> (error + json list) \<times> MCPServer" where
  "handlePromptsList this rid =
     sendMessage this (result_message (JObj [(''prompts'', JArr [])]) rid)"

subsection \<open>Listing and searching nodes\<close>

text \<open>The node list, written out twice in the source with the same 35 names.\<close>

definition node_names :: "string list" where
  "node_names =
     [''HTTP Request'', ''Function'', ''If'', ''Split In Batches'', ''Webhook'', ''Airtable'',
      ''Discord'', ''Slack'', ''Email'', ''Cron'', ''Manual Trigger'', ''Code'', ''Set'',
      ''Merge'', ''Filter'', ''Switch'', ''Wait'', ''Error Trigger'', ''Google Sheets'',
      ''Notion'', ''Zapier'', ''Pipedrive'', ''HubSpot'', ''Shopify'', ''Stripe'', ''GitHub'',
      ''GitLab'', ''Jira'', ''Trello'', ''Asana'', ''Monday.com'', ''ClickUp'', ''Linear'',
      ''Figma'', ''Canva'']"

text \<open>
  \<^verbatim>\<open>category.toLowerCase()\<close> runs inside the filter, on the first of the 35 names: a
  truthy category that is not a string has no such method, and the call throws.
\<close>

definition handleListNodes ::
  "MCPServer \<Rightarrow> json option \<Rightarrow> json \<Rightarrow> (error + json list) \<times> MCPServer" where
  "handleListNodes this args rid =
     (let category = get_opt args ''category'' in
      if truthy_opt category then
        (case category of
           Some (JStr c) \<Rightarrow>
             (let nodes = filter (\<lambda>node. includes_str (toLowerCase node) (toLowerCase c)) node_names
              in sendMessage this (result_message
                        (text_content
                           (''Available n8n nodes in category '' @ dq @ c @ dq @ '':\<newline>\<newline>''
                            @ join '', '' nodes @ ''\<newline>\<newline>Total: '' @ show_nat (length nodes)
                            @ '' nodes''))
                        rid))
         | _ \<Rightarrow> (Inl TypeError, this))
      else
        sendMessage this (result_message
               (text_content
                  (''Available n8n nodes:\<newline>\<newline>'' @ join '', '' node_names
                   @ ''\<newline>\<newline>Total: '' @ show_nat (length node_names) @ '' nodes''))
               rid))"

definition handleSearchNodes ::
  "MCPServer \<Rightarrow> json option \<Rightarrow> json \<Rightarrow> (error + json list) \<times> MCPServer" where
  "handleSearchNodes this args rid =
     (case or_else (get_opt args ''query'') (JStr []) of
        JStr query \<Rightarrow>
          (let matchingNodes =
                 filter (\<lambda>node. includes_str (toLowerCase node) (toLowerCase query)) node_names
           in sendMessage this (result_message
                     (text_content
                        (''Search results for '' @ dq @ query @ dq @ '':\<newline>\<newline>''
                         @ (if length matchingNodes > 0 then join '', '' matchingNodes
                            else ''No nodes found'')
                         @ ''\<newline>\<newline>Found '' @ show_nat (length matchingNodes)
                         @ '' matching nodes.''))
                     rid))
      | _ \<Rightarrow> (Inl TypeError, this))"

definition categories :: "string list" where
  "categories =
     [''Core'', ''Flow Control'', ''Communication'', ''Data'', ''Files'', ''CRM'',
      ''Marketing'', ''E-commerce'', ''Development'', ''Productivity'', ''Social Media'',
      ''Analytics'', ''Finance'', ''Design'', ''Project Management'']"

definition handleListNodeCategories ::
  "MCPServer \<Rightarrow> json \<Rightarrow> (error + json list) \<times> MCPServer" where
  "handleListNodeCategories this rid =
     sendMessage this (result_message
            (text_content
               (''Available n8n node categories:\<newline>\<newline>'' @ join '', '' categories
                @ ''\<newline>\<newline>Total: '' @ show_nat (length categories) @ '' categories''))
            rid)"

subsection \<open>Node information and documentation\<close>

text \<open>An entry of \<^verbatim>\<open>nodeInfo\<close>: description, category, properties, examples.\<close>

datatype node_info = NodeInfo string string "string list" "string list"

definition nodeInfo :: "(string \<times> node_info) list" where
  "nodeInfo =
     [(''HTTP Request'', NodeInfo
         ''Make HTTP requests to external APIs and services''
         ''Core''
         [''URL'', ''Method'', ''Headers'', ''Body'', ''Authentication'']
         [''GET API data'', ''POST form data'', ''PUT update resource'']),
      (''Function'', NodeInfo
         ''Execute custom JavaScript code to transform data''
         ''Core''
         [''Code'', ''Input Data'', ''Output Format'']
         [''Data transformation'', ''Custom logic'', ''Data validation'']),
      (''If'', NodeInfo
         ''Conditionally route workflow execution based on conditions''
         ''Flow Control''
         [''Conditions'', ''True Path'', ''False Path'']
         [''Data filtering'', ''Error handling'', ''Branching logic''])]"

definition fallback_info :: node_info where
  "fallback_info =
     NodeInfo ''A powerful n8n node for workflow automation'' ''General''
       [''Various configuration options'']
       [''Workflow automation'', ''Data processing'', ''Integration'']"

fun info_text :: "string \<Rightarrow> node_info \<Rightarrow> string" where
  "info_text nodeName (NodeInfo description category properties examples) =
     ''**'' @ nodeName @ '' Node**\<newline>\<newline>**Description:** '' @ description
     @ ''\<newline>**Category:** '' @ category
     @ ''\<newline>**Key Properties:** '' @ join '', '' properties
     @ ''\<newline>**Common Use Cases:** '' @ join '', '' examples"

text \<open>
  The name is used as a property key and in the text, both of which convert it to a
  string. An inherited entry is truthy, so the fallback is not taken, and its
  \<^verbatim>\<open>properties\<close> is \<^verbatim>\<open>undefined\<close>: \<^verbatim>\<open>info.properties.join\<close> throws.
\<close>

definition handleGetNodeInfo ::
  "MCPServer \<Rightarrow> json option \<Rightarrow> json \<Rightarrow> (error + json list) \<times> MCPServer" where
  "handleGetNodeInfo this args rid =
     (case ToString (or_else (get_opt args ''nodeName'') (JStr ''HTTP Request'')) of
        Inl e \<Rightarrow> (Inl e, this)
      | Inr nodeName \<Rightarrow>
          (case lookup nodeInfo nodeName of
             Own info \<Rightarrow> sendMessage this (result_message (text_content (info_text nodeName info)) rid)
           | Inherited f \<Rightarrow> (Inl TypeError, this)
           | Undefined \<Rightarrow>
               sendMessage this (result_message (text_content (info_text nodeName fallback_info)) rid)))"

text \<open>An entry of \<^verbatim>\<open>documentation\<close>: title, description, parameters, examples.\<close>

datatype doc = Doc string string "string list" "string list"

definition documentation :: "(string \<times> doc) list" where
  "documentation =
     [(''HTTP Request'', Doc
         ''HTTP Request Node Documentation''
         ''The HTTP Request node allows you to make HTTP requests to external APIs and services.''
         [''URL: The endpoint URL to send the request to'', ''Method: HTTP method (GET, POST, PUT, DELETE, etc.)'', ''Headers: Custom headers to include in the request'', ''Body: Request body for POST/PUT requests'', ''Authentication: API keys, OAuth, or basic auth'']
         [''GET: Fetch data from a REST API'', ''POST: Send data to create a new resource'', ''PUT: Update an existing resource'', ''DELETE: Remove a resource''])]"

definition fallback_doc :: "string \<Rightarrow> doc" where
  "fallback_doc nodeName =
     Doc (nodeName @ '' Node Documentation'')
       ''Comprehensive documentation for this n8n node.''
       [''Various configuration parameters available'']
       [''Multiple use cases and examples available'']"

fun doc_text :: "doc \<Rightarrow> string" where
  "doc_text (Doc title description parameters examples) =
     ''# '' @ title @ ''\<newline>\<newline>'' @ description
     @ ''\<newline>\<newline>## Parameters\<newline>'' @ join ''\<newline>'' (map (\<lambda>p. ''- '' @ p) parameters)
     @ ''\<newline>\<newline>## Examples\<newline>'' @ join ''\<newline>'' (map (\<lambda>e. ''- '' @ e) examples)"

text \<open>Here an inherited entry has no \<^verbatim>\<open>parameters\<close>: \<^verbatim>\<open>doc.parameters.map\<close> throws.\<close>

definition handleGetNodeDocumentation ::
  "MCPServer \<Rightarrow> json option \<Rightarrow> json \<Rightarrow> (error + json list) \<times> MCPServer" where
  "handleGetNodeDocumentation this args rid =
     (case ToString (or_else (get_opt args ''nodeName'') (JStr ''HTTP Request'')) of
        Inl e \<Rightarrow> (Inl e, this)
      | Inr nodeName \<Rightarrow>
          (case lookup documentation nodeName of
             Own d \<Rightarrow> sendMessage this (result_message (text_content (doc_text d)) rid)
           | Inherited f \<Rightarrow> (Inl TypeError, this)
           | Undefined \<Rightarrow>
               sendMessage this (result_message (text_content (doc_text (fallback_doc nodeName))) rid)))"

subsection \<open>Test workflows\<close>

text \<open>
  An entry of \<^verbatim>\<open>workflows\<close>: name, nodes, connections. Each entry carries the caller's
  \<^verbatim>\<open>customName\<close> as its name.
\<close>

datatype workflow = Workflow json "json list" "(string \<times> json) list"

fun workflow_json :: "workflow \<Rightarrow> json" where
  "workflow_json (Workflow name nodes connections) =
     JObj [(''name'', name), (''nodes'', JArr nodes), (''connections'', JObj connections)]"

definition workflows :: "json \<Rightarrow> (string \<times> workflow) list" where
  "workflows customName = [
      (''webhook_to_slack'',
       Workflow customName
         [
            JObj [
              (''id'', JStr ''webhook_1''),
              (''name'', JStr ''Webhook''),
              (''type'', JStr ''n8n-nodes-base.webhook''),
              (''typeVersion'', JNum ''1''),
              (''position'', JArr [JNum ''250'', JNum ''300'']),
              (''parameters'', JObj [
                (''httpMethod'', JStr ''POST''),
                (''path'', JStr ''test-webhook''),
                (''responseMode'', JStr ''responseNode'')])],
            JObj [
              (''id'', JStr ''slack_1''),
              (''name'', JStr ''Slack''),
              (''type'', JStr ''n8n-nodes-base.slack''),
              (''typeVersion'', JNum ''1''),
              (''position'', JArr [JNum ''450'', JNum ''300'']),
              (''parameters'', JObj [
                (''resource'', JStr ''message''),
                (''operation'', JStr ''post''),
                (''channel'', JStr ''#general''),
                (''text'', JStr (''=Test message from n8n workflow: {{$json.message || '' @ [CHR 0x22] @ ''Hello from webhook!'' @ [CHR 0x22] @ ''}}''))])],
            JObj [
              (''id'', JStr ''respond_1''),
              (''name'', JStr ''Respond to Webhook''),
              (''type'', JStr ''n8n-nodes-base.respondToWebhook''),
              (''typeVersion'', JNum ''1''),
              (''position'', JArr [JNum ''650'', JNum ''300'']),
              (''parameters'', JObj [
                (''responseCode'', JNum ''200''),
                (''responseData'', JStr ''json''),
                (''responseBody'', JStr (''={'' @ [CHR 0x22] @ ''status'' @ [CHR 0x22] @ '': '' @ [CHR 0x22] @ ''success'' @ [CHR 0x22] @ '', '' @ [CHR 0x22] @ ''message'' @ [CHR 0x22] @ '': '' @ [CHR 0x22] @ ''Workflow executed successfully'' @ [CHR 0x22] @ ''}''))])]]
         [
            (''Webhook'', JObj [
              (''main'', JArr [
                JArr [
                  JObj [
                    (''node'', JStr ''Slack''),
                    (''type'', JStr ''main''),
                    (''index'', JNum ''0'')]]])]),
            (''Slack'', JObj [
              (''main'', JArr [
                JArr [
                  JObj [
                    (''node'', JStr ''Respond to Webhook''),
                    (''type'', JStr ''main''),
                    (''index'', JNum ''0'')]]])])]),
      (''manual_to_http'',
       Workflow customName
         [
            JObj [
              (''id'', JStr ''manual_1''),
              (''name'', JStr ''Manual Trigger''),
              (''type'', JStr ''n8n-nodes-base.manualTrigger''),
              (''typeVersion'', JNum ''1''),
              (''position'', JArr [JNum ''250'', JNum ''300'']),
              (''parameters'', JObj [])],
            JObj [
              (''id'', JStr ''http_1''),
              (''name'', JStr ''HTTP Request''),
              (''type'', JStr ''n8n-nodes-base.httpRequest''),
              (''typeVersion'', JNum ''4.2''),
              (''position'', JArr [JNum ''450'', JNum ''300'']),
              (''parameters'', JObj [
                (''method'', JStr ''GET''),
                (''url'', JStr ''https://httpbin.org/json''),
                (''responseFormat'', JStr ''json'')])],
            JObj [
              (''id'', JStr ''set_1''),
              (''name'', JStr ''Set''),
              (''type'', JStr ''n8n-nodes-base.set''),
              (''typeVersion'', JNum ''3.4''),
              (''position'', JArr [JNum ''650'', JNum ''300'']),
              (''parameters'', JObj [
                (''values'', JObj [
                  (''string'', JArr [
                    JObj [
                      (''name'', JStr ''processed_at''),
                      (''value'', JStr ''={{ new Date().toISOString() }}'')],
                    JObj [(''name'', JStr ''status''), (''value'', JStr ''completed'')]])])])]]
         [
            (''Manual Trigger'', JObj [
              (''main'', JArr [
                JArr [
                  JObj [
                    (''node'', JStr ''HTTP Request''),
                    (''type'', JStr ''main''),
                    (''index'', JNum ''0'')]]])]),
            (''HTTP Request'', JObj [
              (''main'', JArr [
                JArr [
                  JObj [
                    (''node'', JStr ''Set''),
                    (''type'', JStr ''main''),
                    (''index'', JNum ''0'')]]])])]),
      (''schedule_to_email'',
       Workflow customName
         [
            JObj [
              (''id'', JStr ''schedule_1''),
              (''name'', JStr ''Schedule Trigger''),
              (''type'', JStr ''n8n-nodes-base.scheduleTrigger''),
              (''typeVersion'', JNum ''1''),
              (''position'', JArr [JNum ''250'', JNum ''300'']),
              (''parameters'', JObj [
                (''rule'', JObj [
                  (''interval'', JArr [JObj [(''field'', JStr ''minute''), (''value'', JNum ''30'')]])])])],
            JObj [
              (''id'', JStr ''email_1''),
              (''name'', JStr ''Email''),
              (''type'', JStr ''n8n-nodes-base.emailSend''),
              (''typeVersion'', JNum ''2''),
              (''position'', JArr [JNum ''450'', JNum ''300'']),
              (''parameters'', JObj [
                (''toEmail'', JStr ''test@example.com''),
                (''subject'', JStr ''Scheduled Test Email''),
                (''message'', JStr ''This is a test email sent by n8n workflow at {{ new Date().toISOString() }}'')])]]
         [
            (''Schedule Trigger'', JObj [
              (''main'', JArr [
                JArr [
                  JObj [
                    (''node'', JStr ''Email''),
                    (''type'', JStr ''main''),
                    (''index'', JNum ''0'')]]])])]),
      (''ai_agent'',
       Workflow customName
         [
            JObj [
              (''id'', JStr ''webhook_1''),
              (''name'', JStr ''Webhook''),
              (''type'', JStr ''n8n-nodes-base.webhook''),
              (''typeVersion'', JNum ''1''),
              (''position'', JArr [JNum ''250'', JNum ''300'']),
              (''parameters'', JObj [
                (''httpMethod'', JStr ''POST''),
                (''path'', JStr ''ai-chat''),
                (''responseMode'', JStr ''responseNode'')])],
            JObj [
              (''id'', JStr ''ai_1''),
              (''name'', JStr ''AI Agent''),
              (''type'', JStr ''@n8n/n8n-nodes-langchain.agent''),
              (''typeVersion'', JNum ''1''),
              (''position'', JArr [JNum ''450'', JNum ''300'']),
              (''parameters'', JObj [
                (''text'', JStr ''={{ $json.query }}''),
                (''systemMessage'', JStr ''You are a helpful AI assistant. Answer questions clearly and concisely.'')])],
            JObj [
              (''id'', JStr ''respond_1''),
              (''name'', JStr ''Respond to Webhook''),
              (''type'', JStr ''n8n-nodes-base.respondToWebhook''),
              (''typeVersion'', JNum ''1''),
              (''position'', JArr [JNum ''650'', JNum ''300'']),
              (''parameters'', JObj [
                (''responseCode'', JNum ''200''),
                (''responseData'', JStr ''json''),
                (''responseBody'', JStr (''={'' @ [CHR 0x22] @ ''response'' @ [CHR 0x22] @ '': '' @ [CHR 0x22] @ ''{{ $json.text }}'' @ [CHR 0x22] @ ''}''))])]]
         [
            (''Webhook'', JObj [
              (''main'', JArr [
                JArr [
                  JObj [
                    (''node'', JStr ''AI Agent''),
                    (''type'', JStr ''main''),
                    (''index'', JNum ''0'')]]])]),
            (''AI Agent'', JObj [
              (''main'', JArr [
                JArr [
                  JObj [
                    (''node'', JStr ''Respond to Webhook''),
                    (''type'', JStr ''main''),
                    (''index'', JNum ''0'')]]])])]),
      (''data_processing'',
       Workflow customName
         [
            JObj [
              (''id'', JStr ''manual_1''),
              (''name'', JStr ''Manual Trigger''),
              (''type'', JStr ''n8n-nodes-base.manualTrigger''),
              (''typeVersion'', JNum ''1''),
              (''position'', JArr [JNum ''250'', JNum ''300'']),
              (''parameters'', JObj [])],
            JObj [
              (''id'', JStr ''code_1''),
              (''name'', JStr ''Code''),
              (''type'', JStr ''n8n-nodes-base.code''),
              (''typeVersion'', JNum ''2''),
              (''position'', JArr [JNum ''450'', JNum ''300'']),
              (''parameters'', JObj [
                (''jsCode'', JStr (''// Generate sample data\<newline>const data = [];\<newline>for (let i = 0; i < 5; i++) {\<newline>  data.push({\<newline>    id: i + 1,\<newline>    name: '' @ [CHR 0x27] @ ''Item '' @ [CHR 0x27] @ '' + (i + 1),\<newline>    value: Math.random() * 100,\<newline>    timestamp: new Date().toISOString()\<newline>  });\<newline>}\<newline>return data;''))])],
            JObj [
              (''id'', JStr ''filter_1''),
              (''name'', JStr ''Filter''),
              (''type'', JStr ''n8n-nodes-base.if''),
              (''typeVersion'', JNum ''2''),
              (''position'', JArr [JNum ''650'', JNum ''300'']),
              (''parameters'', JObj [
                (''conditions'', JObj [
                  (''number'', JArr [
                    JObj [
                      (''value1'', JStr ''={{ $json.value }}''),
                      (''operation'', JStr ''larger''),
                      (''value2'', JNum ''50'')]])])])],
            JObj [
              (''id'', JStr ''set_1''),
              (''name'', JStr ''Set''),
              (''type'', JStr ''n8n-nodes-base.set''),
              (''typeVersion'', JNum ''3.4''),
              (''position'', JArr [JNum ''850'', JNum ''300'']),
              (''parameters'', JObj [
                (''values'', JObj [
                  (''string'', JArr [
                    JObj [(''name'', JStr ''processed''), (''value'', JStr ''true'')],
                    JObj [
                      (''name'', JStr ''filtered_count''),
                      (''value'', JStr ''={{ $json.length }}'')]])])])]]
         [
            (''Manual Trigger'', JObj [
              (''main'', JArr [
                JArr [
                  JObj [
                    (''node'', JStr ''Code''),
                    (''type'', JStr ''main''),
                    (''index'', JNum ''0'')]]])]),
            (''Code'', JObj [
              (''main'', JArr [
                JArr [
                  JObj [
                    (''node'', JStr ''Filter''),
                    (''type'', JStr ''main''),
                    (''index'', JNum ''0'')]]])]),
            (''Filter'', JObj [
              (''main'', JArr [
                JArr [
                  JObj [
                    (''node'', JStr ''Set''),
                    (''type'', JStr ''main''),
                    (''index'', JNum ''0'')]]])])])]"

text \<open>\<^verbatim>\<open>a.length\<close> of an array, and the own enumerable properties of a value.\<close>

fun array_length :: "json option \<Rightarrow> nat" where
  "array_length (Some (JArr xs)) = length xs"
| "array_length v = 0"

fun entries :: "json \<Rightarrow> (string \<times> json) list" where
  "entries (JObj kvs) = kvs"
| "entries (JArr xs) = zip (map show_nat [0..<length xs]) xs"
| "entries (JStr s) = zip (map show_nat [0..<length s]) (map (\<lambda>c. JStr [c]) s)"
| "entries v = []"

text \<open>The text of the result, \<open>n\<close> being \<^verbatim>\<open>workflow.name\<close> as a string.\<close>

fun created_text :: "string \<Rightarrow> string \<Rightarrow> workflow \<Rightarrow> string" where
  "created_text n workflowType (Workflow name nodes connections) =
     ([CHR 0xC3, CHR 0xA2, CHR 0xC5, CHR 0x93, CHR 0xE2, CHR 0x80, CHR 0xA6] @ '' Created test workflow: '' @ [CHR 0x22]) @ n
     @ ([CHR 0x22] @ ''\<newline>\<newline>**Workflow Type:** '') @ workflowType
     @ ''\<newline>**Nodes:** '' @ show_nat (length nodes)
     @ ''\<newline>**Connections:** ''
     @ show_nat (length connections)
     @ ''\<newline>\<newline>**Workflow JSON:**\<newline>```json\<newline>''
     @ stringify 0 (workflow_json (Workflow name nodes connections))
     @ ''\<newline>```\<newline>\<newline>**Testing Instructions:**\<newline>1. Copy the JSON above\<newline>2. Use validate_workflow to check for issues\<newline>3. Import into n8n instance\<newline>4. Test execution''"

text \<open>
  The type is converted to a string for the default name, for the lookup and for the
  texts; the conversion either throws each time or gives the same string each time. An
  unknown type is reported with code -32602. An inherited entry is truthy and has no
  \<^verbatim>\<open>nodes\<close>: \<^verbatim>\<open>workflow.nodes.length\<close> throws. The name of a workflow that is found is
  concatenated into the text, which converts it to a string.
\<close>

definition handleCreateTestWorkflow ::
  "MCPServer \<Rightarrow> json option \<Rightarrow> json \<Rightarrow> (error + json list) \<times> MCPServer" where
  "handleCreateTestWorkflow this args rid =
     (case ToString (or_else (get_opt args ''workflowType'') (JStr ''webhook_to_slack'')) of
        Inl e \<Rightarrow> (Inl e, this)
      | Inr workflowType \<Rightarrow>
          (let customName =
                 or_else (get_opt args ''customName'') (JStr (''Test Workflow - '' @ workflowType))
           in case lookup (workflows customName) workflowType of
                Undefined \<Rightarrow>
                  sendMessage this (error_message ''-32602'' (''Unknown workflow type: '' @ workflowType) rid)
              | Inherited f \<Rightarrow> (Inl TypeError, this)
              | Own (Workflow name nodes connections) \<Rightarrow>
                  (case ToString name of
                     Inl e \<Rightarrow> (Inl e, this)
                   | Inr n \<Rightarrow>
                       sendMessage this (result_message
                              (text_content
                                 (created_text n workflowType (Workflow name nodes connections)))
                              rid))))"

subsection \<open>Workflow validation\<close>

text \<open>
  The checks of one node, in the order of the source, appending to the two lists.
  Reading a property of a \<^verbatim>\<open>null\<close> node throws.
\<close>

definition check_node ::
  "nat \<Rightarrow> json \<Rightarrow> string list \<times> string list \<Rightarrow> error + string list \<times> string list" where
  "check_node index node acc =
     (if node = JNull then Inl TypeError
      else
        (let errors = fst acc;
             warnings = snd acc;
             errors = (if \<not> truthy_opt (get node ''id'')
                       then errors @ [''Node '' @ show_nat index @ '': Missing ID''] else errors);
             errors = (if \<not> truthy_opt (get node ''name'')
                       then errors @ [''Node '' @ show_nat index @ '': Missing name''] else errors);
             errors = (if \<not> truthy_opt (get node ''type'')
                       then errors @ [''Node '' @ show_nat index @ '': Missing type''] else errors);
             errors = (if \<not> truthy_opt (get node ''position'') \<or> \<not> isArray (get node ''position'')
                          \<or> array_length (get node ''position'') \<noteq> 2
                       then errors @ [''Node '' @ show_nat index
                                       @ '': Invalid position (should be [x, y])'']
                       else errors);
             warnings = (if \<not> truthy_opt (get node ''typeVersion'')
                         then warnings @ [''Node '' @ show_nat index
                                           @ '': Missing typeVersion (recommended)'']
                         else warnings)
         in Inr (errors, warnings)))"

text \<open>\<^verbatim>\<open>workflow.nodes.forEach((node, index) => ...)\<close> from index \<open>index\<close> on.\<close>

fun forEach_node ::
  "nat \<Rightarrow> json list \<Rightarrow> string list \<times> string list \<Rightarrow> error + string list \<times> string list" where
  "forEach_node index [] acc = Inr acc"
| "forEach_node index (node # rest) acc =
     (case check_node index node acc of
        Inl e \<Rightarrow> Inl e
      | Inr acc' \<Rightarrow> forEach_node (Suc index) rest acc')"

text \<open>
  The loop over \<^verbatim>\<open>Object.keys(workflow.connections)\<close>; the value of a key is the entry's
  own value.
\<close>

fun forEach_connection :: "(string \<times> json) list \<Rightarrow> string list \<Rightarrow> string list" where
  "forEach_connection [] errors = errors"
| "forEach_connection ((sourceNode, connections) # rest) errors =
     forEach_connection rest
       (if \<not> typeof_object connections
        then errors @ [''Invalid connections for node: '' @ sourceNode] else errors)"

text \<open>
  The accumulation of errors and warnings. \<^verbatim>\<open>workflow.nodes.forEach\<close> is guarded by
  the truthiness of \<^verbatim>\<open>workflow.nodes\<close> alone: on a truthy value that is not an array
  there is no such method, and the call throws.
\<close>

definition validate :: "json \<Rightarrow> error + string list \<times> string list" where
  "validate workflow =
     (let errors = [];
          warnings = [];
          errors = (if \<not> truthy_opt (get workflow ''name'')
                    then errors @ [''Missing workflow name''] else errors);
          errors = (if \<not> truthy_opt (get workflow ''nodes'') \<or> \<not> isArray (get workflow ''nodes'')
                    then errors @ [''Missing or invalid nodes array''] else errors);
          errors = (if \<not> truthy_opt (get workflow ''connections'')
                       \<or> \<not> typeof_object (or_else (get workflow ''connections'') JNull)
                    then errors @ [''Missing or invalid connections object''] else errors)
      in case (if truthy_opt (get workflow ''nodes'') then
                 (case get workflow ''nodes'' of
                    Some (JArr nodes) \<Rightarrow> forEach_node 0 nodes (errors, warnings)
                  | _ \<Rightarrow> Inl TypeError)
               else Inr (errors, warnings)) of
           Inl e \<Rightarrow> Inl e
         | Inr acc \<Rightarrow>
             Inr (if truthy_opt (get workflow ''connections'')
                  then forEach_connection (entries (or_else (get workflow ''connections'') JNull))
                         (fst acc)
                  else fst acc,
                  snd acc))"

definition status_of :: "string list \<Rightarrow> string" where
  "status_of errors = (if length errors = 0 then ''VALID'' else ''INVALID'')"

text \<open>
  The summary object. When it is built \<^verbatim>\<open>workflow.nodes\<close> is an array or falsy, and
  \<^verbatim>\<open>workflow.nodes?.length || 0\<close> is the array's length or 0.
\<close>

definition summary :: "json \<Rightarrow> string list \<Rightarrow> string list \<Rightarrow> json" where
  "summary workflow errors warnings =
     JObj [(''status'', JStr (status_of errors)),
           (''errors'', JNum (show_nat (length errors))),
           (''warnings'', JNum (show_nat (length warnings))),
           (''nodes'', JNum (show_nat (array_length (get workflow ''nodes'')))),
           (''connections'',
              JNum (show_nat (length (entries (or_else (get workflow ''connections'') (JObj []))))))]"

definition validation_text :: "json \<Rightarrow> string list \<Rightarrow> string list \<Rightarrow> string" where
  "validation_text workflow errors warnings =
     ''## Workflow Validation Results\<newline>\<newline>**Status:** '' @ status_of errors
     @ ''\<newline>**Summary:** '' @ stringify 0 (summary workflow errors warnings)
     @ ''\<newline>\<newline>''
     @ (if length errors > 0
        then ''**Errors:**\<newline>'' @ join ''\<newline>'' (map (\<lambda>e. ''- '' @ e) errors) @ ''\<newline>\<newline>''
        else [])
     @ (if length warnings > 0
        then ''**Warnings:**\<newline>'' @ join ''\<newline>'' (map (\<lambda>w. ''- '' @ w) warnings) @ ''\<newline>\<newline>''
        else [])
     @ ''**Recommendations:**\<newline>''
     @ (if length errors = 0
        then (''- '' @ [CHR 0xC3, CHR 0xA2, CHR 0xC5, CHR 0x93, CHR 0xE2, CHR 0x80, CHR 0xA6] @ '' Workflow structure is valid\<newline>- '' @ [CHR 0xC3, CHR 0xB0, CHR 0xC5, CHR 0xB8, CHR 0xC2, CHR 0xA7, CHR 0xC2, CHR 0xAA] @ '' Ready for testing in n8n\<newline>- '' @ [CHR 0xC3, CHR 0xB0, CHR 0xC5, CHR 0xB8, CHR 0xE2, CHR 0x80, CHR 0x9C] @ '' Consider adding error handling nodes'')
        else (''- '' @ [CHR 0xC3, CHR 0xA2, CHR 0xC5, CHR 0x92] @ '' Fix errors before testing\<newline>- '' @ [CHR 0xC3, CHR 0xB0, CHR 0xC5, CHR 0xB8, CHR 0xE2, CHR 0x80, CHR 0x9D, CHR 0xC2, CHR 0xA7] @ '' Review node configurations\<newline>- '' @ [CHR 0xC3, CHR 0xB0, CHR 0xC5, CHR 0xB8, CHR 0xE2, CHR 0x80, CHR 0x9C, CHR 0xC5, CHR 0xA1] @ '' Check n8n documentation for node types''))"

definition handleValidateWorkflow ::
  "MCPServer \<Rightarrow> json option \<Rightarrow> json \<Rightarrow> (error + json list) \<times> MCPServer" where
  "handleValidateWorkflow this args rid =
     (case get_opt args ''workflow'' of
        None \<Rightarrow> sendMessage this (error_message ''-32602'' ''Workflow object is required'' rid)
      | Some workflow \<Rightarrow>
          if \<not> truthy workflow
          then sendMessage this (error_message ''-32602'' ''Workflow object is required'' rid)
          else
            (case validate workflow of
               Inl e \<Rightarrow> (Inl e, this)
             | Inr (errors, warnings) \<Rightarrow>
                 sendMessage this (result_message
                        (text_content (validation_text workflow errors warnings)) rid)))"

subsection \<open>Workflow templates\<close>

text \<open>
  An entry of \<^verbatim>\<open>templates\<close>: name, description, category, difficulty, the number of
  nodes as it prints, and the workflow.
\<close>

datatype template = Template string string string string string json

definition templates :: "(string \<times> template) list" where
  "templates = [
      (''webhook_slack'',
       Template ''Webhook to Slack Notification''
         ''Simple webhook that sends notifications to Slack''
         ''Communication'' ''Beginner'' ''3''
         (JObj [
            (''name'', JStr ''Webhook to Slack''),
            (''nodes'', JArr [
              JObj [
                (''id'', JStr ''webhook_1''),
                (''name'', JStr ''Webhook''),
                (''type'', JStr ''n8n-nodes-base.webhook''),
                (''typeVersion'', JNum ''1''),
                (''position'', JArr [JNum ''250'', JNum ''300'']),
                (''parameters'', JObj [
                  (''httpMethod'', JStr ''POST''),
                  (''path'', JStr ''slack-notify''),
                  (''responseMode'', JStr ''responseNode'')])],
              JObj [
                (''id'', JStr ''slack_1''),
                (''name'', JStr ''Slack''),
                (''type'', JStr ''n8n-nodes-base.slack''),
                (''typeVersion'', JNum ''1''),
                (''position'', JArr [JNum ''450'', JNum ''300'']),
                (''parameters'', JObj [
                  (''resource'', JStr ''message''),
                  (''operation'', JStr ''post''),
                  (''channel'', JStr ''#general''),
                  (''text'', JStr (''=New notification: {{$json.message || '' @ [CHR 0x22] @ ''Hello from webhook!'' @ [CHR 0x22] @ ''}}''))])],
              JObj [
                (''id'', JStr ''respond_1''),
                (''name'', JStr ''Respond to Webhook''),
                (''type'', JStr ''n8n-nodes-base.respondToWebhook''),
                (''typeVersion'', JNum ''1''),
                (''position'', JArr [JNum ''650'', JNum ''300'']),
                (''parameters'', JObj [
                  (''responseCode'', JNum ''200''),
                  (''responseData'', JStr ''json''),
                  (''responseBody'', JStr (''={'' @ [CHR 0x22] @ ''status'' @ [CHR 0x22] @ '': '' @ [CHR 0x22] @ ''sent'' @ [CHR 0x22] @ ''}''))])]]),
            (''connections'', JObj [
              (''Webhook'', JObj [
                (''main'', JArr [
                  JArr [
                    JObj [
                      (''node'', JStr ''Slack''),
                      (''type'', JStr ''main''),
                      (''index'', JNum ''0'')]]])]),
              (''Slack'', JObj [
                (''main'', JArr [
                  JArr [
                    JObj [
                      (''node'', JStr ''Respond to Webhook''),
                      (''type'', JStr ''main''),
                      (''index'', JNum ''0'')]]])])])])),
      (''email_processor'',
       Template ''Email Processing Workflow''
         ''Process incoming emails and extract data''
         ''Data Processing'' ''Intermediate'' ''4''
         (JObj [
            (''name'', JStr ''Email Processor''),
            (''nodes'', JArr [
              JObj [
                (''id'', JStr ''email_1''),
                (''name'', JStr ''Email Read IMAP''),
                (''type'', JStr ''n8n-nodes-base.emailReadImap''),
                (''typeVersion'', JNum ''1''),
                (''position'', JArr [JNum ''250'', JNum ''300'']),
                (''parameters'', JObj [(''mailbox'', JStr ''INBOX''), (''readToEnd'', JBool True)])],
              JObj [
                (''id'', JStr ''filter_1''),
                (''name'', JStr ''Filter''),
                (''type'', JStr ''n8n-nodes-base.if''),
                (''typeVersion'', JNum ''2''),
                (''position'', JArr [JNum ''450'', JNum ''300'']),
                (''parameters'', JObj [
                  (''conditions'', JObj [
                    (''string'', JArr [
                      JObj [
                        (''value1'', JStr ''={{ $json.subject }}''),
                        (''operation'', JStr ''contains''),
                        (''value2'', JStr ''important'')]])])])],
              JObj [
                (''id'', JStr ''set_1''),
                (''name'', JStr ''Set''),
                (''type'', JStr ''n8n-nodes-base.set''),
                (''typeVersion'', JNum ''3.4''),
                (''position'', JArr [JNum ''650'', JNum ''300'']),
                (''parameters'', JObj [
                  (''values'', JObj [
                    (''string'', JArr [
                      JObj [
                        (''name'', JStr ''processed_at''),
                        (''value'', JStr ''={{ new Date().toISOString() }}'')],
                      JObj [(''name'', JStr ''priority''), (''value'', JStr ''high'')]])])])],
              JObj [
                (''id'', JStr ''slack_1''),
                (''name'', JStr ''Slack''),
                (''type'', JStr ''n8n-nodes-base.slack''),
                (''typeVersion'', JNum ''1''),
                (''position'', JArr [JNum ''850'', JNum ''300'']),
                (''parameters'', JObj [
                  (''resource'', JStr ''message''),
                  (''operation'', JStr ''post''),
                  (''channel'', JStr ''#alerts''),
                  (''text'', JStr ''=Important email received: {{$json.subject}}'')])]]),
            (''connections'', JObj [
              (''Email Read IMAP'', JObj [
                (''main'', JArr [
                  JArr [
                    JObj [
                      (''node'', JStr ''Filter''),
                      (''type'', JStr ''main''),
                      (''index'', JNum ''0'')]]])]),
              (''Filter'', JObj [
                (''main'', JArr [
                  JArr [
                    JObj [
                      (''node'', JStr ''Set''),
                      (''type'', JStr ''main''),
                      (''index'', JNum ''0'')]]])]),
              (''Set'', JObj [
                (''main'', JArr [
                  JArr [
                    JObj [
                      (''node'', JStr ''Slack''),
                      (''type'', JStr ''main''),
                      (''index'', JNum ''0'')]]])])])]))]"

definition template_text ::
  "string \<Rightarrow> string \<Rightarrow> string \<Rightarrow> string \<Rightarrow> string \<Rightarrow> string \<Rightarrow> string" where
  "template_text name description category difficulty nodes workflow =
     ''## Workflow Template: '' @ name
     @ ''\<newline>\<newline>**Description:** '' @ description
     @ ''\<newline>**Category:** '' @ category
     @ ''\<newline>**Difficulty:** '' @ difficulty
     @ ''\<newline>**Nodes:** '' @ nodes
     @ ''\<newline>\<newline>**Workflow JSON:**\<newline>```json\<newline>'' @ workflow
     @ ''\<newline>```\<newline>\<newline>**Usage:**\<newline>1. Copy the JSON above\<newline>2. Import into n8n\<newline>3. Configure credentials\<newline>4. Test execution''"

text \<open>
  An inherited entry is truthy, and nothing throws on it: a function gives its
  \<^verbatim>\<open>name\<close>, and every other property read, like the serialised \<^verbatim>\<open>workflow\<close>,
  prints as \<^verbatim>\<open>undefined\<close>.
\<close>

definition handleGetWorkflowTemplate ::
  "MCPServer \<Rightarrow> json option \<Rightarrow> json \<Rightarrow> (error + json list) \<times> MCPServer" where
  "handleGetWorkflowTemplate this args rid =
     (case ToString (or_else (get_opt args ''templateName'') (JStr ''webhook_slack'')) of
        Inl e \<Rightarrow> (Inl e, this)
      | Inr templateName \<Rightarrow>
          (case lookup templates templateName of
             Undefined \<Rightarrow>
               sendMessage this (error_message ''-32602'' (''Unknown template: '' @ templateName) rid)
           | Inherited f \<Rightarrow>
               sendMessage this (result_message
                      (text_content
                         (template_text (case f of Some n \<Rightarrow> n | None \<Rightarrow> ''undefined'')
                            ''undefined'' ''undefined'' ''undefined'' ''undefined''
                            (stringify_opt None)))
                      rid)
           | Own (Template name description category difficulty nodes workflow) \<Rightarrow>
               sendMessage this (result_message
                      (text_content
                         (template_text name description category difficulty nodes
                            (stringify_opt (Some workflow))))
                      rid)))"

subsection \<open>The dispatcher\<close>

definition handleToolsCall ::
  "MCPServer \<Rightarrow> json option \<Rightarrow> json \<Rightarrow> (error + json list) \<times> MCPServer" where
  "handleToolsCall this params rid =
     (if \<not> destructurable params then (Inl TypeError, this)
      else
        (let name = get_opt params ''name'';
             args = get_opt params ''arguments''
         in if name = Some (JStr ''list_nodes'') then handleListNodes this args rid
            else if name = Some (JStr ''get_node_info'') then handleGetNodeInfo this args rid
            else if name = Some (JStr ''search_nodes'') then handleSearchNodes this args rid
            else if name = Some (JStr ''get_node_documentation'')
              then handleGetNodeDocumentation this args rid
            else if name = Some (JStr ''list_node_categories'') then handleListNodeCategories this rid
            else if name = Some (JStr ''create_test_workflow'')
              then handleCreateTestWorkflow this args rid
            else if name = Some (JStr ''validate_workflow'') then handleValidateWorkflow this args rid
            else if name = Some (JStr ''get_workflow_template'')
              then handleGetWorkflowTemplate this args rid
            else sendMessage this (error_message ''-32601'' ''Tool not found'' rid)))"

text \<open>
  \<^verbatim>\<open>handleRequest\<close>: the envelope check comes first and answers with \<^verbatim>\<open>id: null\<close>;
  a message without \<^verbatim>\<open>id\<close> is a notification and gets no answer; the rest is
  dispatched on the method.
\<close>

definition handleRequest ::
  "MCPServer \<Rightarrow> json \<Rightarrow> (error + json list) \<times> MCPServer" where
  "handleRequest this request =
     (if \<not> destructurable (Some request) then (Inl TypeError, this)
      else
        (let jsonrpc = get request ''jsonrpc'';
             method = get request ''method'';
             params = get request ''params''
         in if \<not> truthy_opt jsonrpc \<or> jsonrpc \<noteq> Some (JStr ''2.0'')
            then sendMessage this (error_message ''-32600'' ''Invalid Request'' JNull)
            else
              (case get request ''id'' of
                 None \<Rightarrow>
                   (if method = Some (JStr ''notifications/initialized'') then (Inr [], this)
                    else (Inr [], this))
               | Some rid \<Rightarrow>
                   if method = Some (JStr ''initialize'') then handleInitialize this rid
                   else if method = Some (JStr ''tools/list'') then handleToolsList this rid
                   else if method = Some (JStr ''tools/call'') then handleToolsCall this params rid
                   else if method = Some (JStr ''resources/list'') then handleResourcesList this rid
                   else if method = Some (JStr ''prompts/list'') then handlePromptsList this rid
                   else sendMessage this (error_message ''-32601'' ''Method not found'' rid))))"

subsection \<open>The main loop\<close>

text \<open>
  A line is given by what \<^verbatim>\<open>JSON.parse\<close> makes of it. Whatever is thrown while the line
  is parsed and handled is caught and logged to the error stream; nothing is written to
  the output then. The one server object lives through all lines: each line is handled
  on the object as the line before left it.
\<close>

definition on_line :: "MCPServer \<Rightarrow> error + json \<Rightarrow> MCPServer \<times> json list" where
  "on_line server line =
     (case line of
        Inl e \<Rightarrow> (server, [])
      | Inr request \<Rightarrow>
          (case handleRequest server request of
             (Inl e, server') \<Rightarrow> (server', [])
           | (Inr out, server') \<Rightarrow> (server', out)))"

fun run :: "MCPServer \<Rightarrow> (error + json) list \<Rightarrow> MCPServer \<times> json list" where
  "run server [] = (server, [])"
| "run server (line # rest) =
     (let (server', out) = on_line server line;
          (server'', out') = run server' rest
      in (server'', out @ out'))"

subsection \<open>What a client sees\<close>

text \<open>
  The messages written for a request: those the handler sent, none when it threw. A
  message is an error object when it has the member \<^verbatim>\<open>error\<close>.
\<close>

fun sent :: "error + json list \<Rightarrow> json list" where
  "sent (Inl e) = []"
| "sent (Inr out) = out"

definition is_error_message :: "json \<Rightarrow> bool" where
  "is_error_message m = (get m ''error'' \<noteq> None)"

section \<open>The HTTP server\<close>

subsection \<open>Header text\<close>

text \<open>
  The \<^verbatim>\<open>Authorization\<close> header and the token are JavaScript strings, given here by their
  UTF-16 code units, since \<^verbatim>\<open>trim\<close> tells white space by code unit. \<open>units\<close> gives the
  code units of an ASCII literal.
\<close>

definition units :: "string \<Rightarrow> nat list" where
  "units s = map of_char s"

text \<open>
  \<^verbatim>\<open>s.trim()\<close> removes white space and line terminators at both ends: tab, line feed,
  vertical tab, form feed, carriage return, space, no-break space (U+00A0), U+1680,
  U+2000 to U+200A, the line and paragraph separators U+2028 and U+2029, U+202F, U+205F,
  U+3000, and the byte order mark U+FEFF.
\<close>

definition is_space :: "nat \<Rightarrow> bool" where
  "is_space c =
     (c \<in> set [0x09, 0x0A, 0x0B, 0x0C, 0x0D, 0x20, 0xA0, 0x1680, 0x2028, 0x2029, 0x202F, 0x205F,
               0x3000, 0xFEFF]
      \<or> (0x2000 \<le> c \<and> c \<le> 0x200A))"

definition trim :: "nat list \<Rightarrow> nat list" where
  "trim s = rev (dropWhile is_space (rev (dropWhile is_space s)))"

subsection \<open>The handler\<close>

text \<open>
  The deployment variant answers one HTTP request per call. Of a request the handler reads
  the method, the URL, the \<^verbatim>\<open>Authorization\<close> header and the parsed body; a response is
  a status and a JSON body, or no body where the source calls \<^verbatim>\<open>end()\<close>. The three CORS
  headers, set on every response alike, are left out.
\<close>

record request =
  req_method :: string
  req_url :: string
  req_authorization :: "nat list option"
  req_body :: "json option"

datatype response = Response nat "json option"

text \<open>
  The environment variables the module reads. On loading, a non-empty
  \<^verbatim>\<open>N8N_MCP_AUTH_TOKEN\<close> is copied to \<^verbatim>\<open>AUTH_TOKEN\<close>.
\<close>

record environment =
  N8N_MCP_AUTH_TOKEN :: "nat list option"
  AUTH_TOKEN :: "nat list option"

definition load :: "environment \<Rightarrow> environment" where
  "load env =
     (case N8N_MCP_AUTH_TOKEN env of
        None \<Rightarrow> env
      | Some t \<Rightarrow> if t = [] then env else env\<lparr>AUTH_TOKEN := Some t\<rparr>)"

text \<open>
  What the handler takes from the platform: the time stamp \<^verbatim>\<open>new Date().toISOString()\<close>
  and the message of a caught exception.
\<close>

record platform =
  now :: string
  message_of :: "error \<Rightarrow> string"

definition tool_table_http :: "json list" where
  "tool_table_http = [
      JObj [
        (''name'', JStr ''list_nodes''),
        (''description'', JStr ''List available n8n nodes''),
        (''inputSchema'', JObj [
          (''type'', JStr ''object''),
          (''properties'', JObj [
            (''category'', JObj [
              (''type'', JStr ''string''),
              (''description'', JStr ''Filter by node category'')])])])],
      JObj [
        (''name'', JStr ''get_node_info''),
        (''description'', JStr ''Get detailed information about a specific n8n node''),
        (''inputSchema'', JObj [
          (''type'', JStr ''object''),
          (''properties'', JObj [
            (''nodeName'', JObj [
              (''type'', JStr ''string''),
              (''description'', JStr ''Name of the node to get information for'')])]),
          (''required'', JArr [JStr ''nodeName''])])],
      JObj [
        (''name'', JStr ''search_nodes''),
        (''description'', JStr ''Search for n8n nodes by keyword''),
        (''inputSchema'', JObj [
          (''type'', JStr ''object''),
          (''properties'', JObj [
            (''query'', JObj [(''type'', JStr ''string''), (''description'', JStr ''Search query'')])]),
          (''required'', JArr [JStr ''query''])])]]"

definition mcpServer :: MCPServer where
  "mcpServer = \<lparr>tools = tool_table_http\<rparr>"

definition validateAuth :: "environment \<Rightarrow> request \<Rightarrow> bool" where
  "validateAuth env req =
     (case req_authorization req of
        None \<Rightarrow> False
      | Some authHeader \<Rightarrow>
          if authHeader = [] then False
          else if \<not> startsWith authHeader (units ''Bearer '') then False
          else (let token = trim (drop 7 authHeader) in Some token = AUTH_TOKEN env))"

definition handleInitialize_http :: "json \<Rightarrow> error + response" where
  "handleInitialize_http rid =
     Inr (Response 200 (Some (result_message
            (JObj [(''protocolVersion'', JStr ''2024-11-05''),
                   (''capabilities'', JObj [(''tools'', JObj [])]),
                   (''serverInfo'',
                      JObj [(''name'', JStr ''n8n-mcp-server''), (''version'', JStr ''2.7.20'')])])
            rid)))"

definition handleToolsList_http ::
  "MCPServer \<Rightarrow> json \<Rightarrow> error + response" where
  "handleToolsList_http this rid =
     Inr (Response 200 (Some (result_message (JObj [(''tools'', JArr (tools this))]) rid)))"

text \<open>The three tools of this variant answer with fixed sentences.\<close>

definition handleToolsCall_http :: "request \<Rightarrow> json \<Rightarrow> error + response" where
  "handleToolsCall_http req rid =
     (let params = get_opt (req_body req) ''params'' in
      if \<not> destructurable params then Inl TypeError
      else
        (let name = get_opt params ''name'';
             args = get_opt params ''arguments''
         in if name = Some (JStr ''list_nodes'') then
              Inr (Response 200 (Some (result_message
                     (text_content
                        (''Available n8n nodes: HTTP Request, Function, If, Split In Batches, ''
                         @ ''Webhook, Airtable, Discord, Slack, and many more...''))
                     rid)))
            else if name = Some (JStr ''get_node_info'') then
              (case ToString (or_else (get_opt args ''nodeName'') (JStr ''HTTP Request'')) of
                 Inl e \<Rightarrow> Inl e
               | Inr nodeName \<Rightarrow>
                   Inr (Response 200 (Some (result_message
                          (text_content
                             (''Information about '' @ nodeName @ '': This node allows you to make ''
                              @ ''HTTP requests to external APIs and services.''))
                          rid))))
            else if name = Some (JStr ''search_nodes'') then
              (case ToString (or_else (get_opt args ''query'') (JStr [])) of
                 Inl e \<Rightarrow> Inl e
               | Inr query \<Rightarrow>
                   Inr (Response 200 (Some (result_message
                          (text_content
                             (''Search results for '' @ dq @ query @ dq
                              @ '': Found multiple nodes matching your query.''))
                          rid))))
            else Inr (Response 400 (Some (error_message ''-32601'' ''Tool not found'' rid)))))"

definition handleMCPRequest ::
  "MCPServer \<Rightarrow> request \<Rightarrow> error + response" where
  "handleMCPRequest this req =
     (if \<not> destructurable (req_body req) then Inl TypeError
      else
        (let jsonrpc = get_opt (req_body req) ''jsonrpc'';
             method = get_opt (req_body req) ''method''
         in if \<not> truthy_opt jsonrpc \<or> jsonrpc \<noteq> Some (JStr ''2.0'')
            then Inr (Response 400 (Some (error_message ''-32600'' ''Invalid Request'' JNull)))
            else
              (case get_opt (req_body req) ''id'' of
                 None \<Rightarrow>
                   (if method = Some (JStr ''notifications/initialized'')
                    then Inr (Response 200 None) else Inr (Response 200 None))
               | Some rid \<Rightarrow>
                   if method = Some (JStr ''initialize'') then handleInitialize_http rid
                   else if method = Some (JStr ''tools/list'') then handleToolsList_http this rid
                   else if method = Some (JStr ''tools/call'') then handleToolsCall_http req rid
                   else if method = Some (JStr ''resources/list'') then
                     Inr (Response 200 (Some (result_message (JObj [(''resources'', JArr [])]) rid)))
                   else if method = Some (JStr ''prompts/list'') then
                     Inr (Response 200 (Some (result_message (JObj [(''prompts'', JArr [])]) rid)))
                   else
                     Inr (Response 400 (Some (error_message ''-32601'' ''Method not found'' rid))))))"

text \<open>
  The exported handler, with the call of the dispatcher as the parameter \<open>dispatch\<close>: a
  result that is the same for every \<open>dispatch\<close> is one the dispatcher had no part in. What
  the dispatcher throws is caught and answered with status 500.
\<close>

definition serve ::
  "(request \<Rightarrow> error + response) \<Rightarrow> platform \<Rightarrow> environment \<Rightarrow> request \<Rightarrow> response" where
  "serve dispatch sys env req =
     (if req_method req = ''OPTIONS'' then Response 200 None
      else if req_method req = ''GET'' \<and> req_url req = ''/health'' then
        Response 200 (Some (JObj [(''status'', JStr ''ok''),
                                  (''message'', JStr ''n8n MCP server is running''),
                                  (''deployment'', JStr ''vercel''),
                                  (''timestamp'', JStr (now sys)),
                                  (''version'', JStr ''2.7.20''),
                                  (''authentication'', JStr ''required_for_mcp'')]))
      else if req_method req = ''POST'' then
        (if \<not> validateAuth env req then
           Response 401
             (Some (error_message ''-32001'' ''Unauthorized - Valid Bearer token required''
                      (or_else (get_opt (req_body req) ''id'') JNull)))
         else
           (case dispatch req of
              Inr r \<Rightarrow> r
            | Inl e \<Rightarrow>
                Response 500 (Some (JObj [(''error'', JStr ''Internal server error''),
                                          (''message'', JStr (message_of sys e)),
                                          (''timestamp'', JStr (now sys))]))))
      else
        Response 200
          (Some (JObj [(''message'', JStr ''n8n MCP Server''),
                       (''status'', JStr ''running''),
                       (''deployment'', JStr ''vercel''),
                       (''version'', JStr ''2.7.20''),
                       (''authentication'', JStr ''required_for_mcp''),
                       (''endpoints'',
                          JObj [(''health'', JStr ''/health (GET)''),
                                (''mcp'', JStr ''/ (POST with Authorization: Bearer <token>)'')]),
                       (''documentation'', JStr ''https://github.com/czlonkowski/n8n-mcp'')])))"

definition module_exports :: "platform \<Rightarrow> environment \<Rightarrow> request \<Rightarrow> response" where
  "module_exports = serve (handleMCPRequest mcpServer)"

section \<open>Properties\<close>

subsection \<open>General facts\<close>

lemma destructurable_Some: "destructurable (Some v) = (v \<noteq> JNull)"
  by (cases v) simp_all

text \<open>
  No method writes to the server object: each one leaves it as it found it. For the two
  dispatchers this rests on every handler they can reach.
\<close>

lemma sendMessage_server: "snd (sendMessage this message) = this"
  by simp

lemma handleInitialize_server: "snd (handleInitialize this rid) = this"
  by (simp add: handleInitialize_def)

lemma handleToolsList_server: "snd (handleToolsList this rid) = this"
  by (simp add: handleToolsList_def)

lemma handleResourcesList_server: "snd (handleResourcesList this rid) = this"
  by (simp add: handleResourcesList_def)

lemma handlePromptsList_server: "snd (handlePromptsList this rid) = this"
  by (simp add: handlePromptsList_def)

lemma handleListNodes_server: "snd (handleListNodes this args rid) = this"
  by (simp add: handleListNodes_def Let_def
        split: option.splits json.splits)

lemma handleSearchNodes_server: "snd (handleSearchNodes this args rid) = this"
  by (simp add: handleSearchNodes_def Let_def split: json.splits)

lemma handleListNodeCategories_server: "snd (handleListNodeCategories this rid) = this"
  by (simp add: handleListNodeCategories_def)

lemma handleGetNodeInfo_server: "snd (handleGetNodeInfo this args rid) = this"
  by (simp add: handleGetNodeInfo_def split: sum.splits property.splits)

lemma handleGetNodeDocumentation_server: "snd (handleGetNodeDocumentation this args rid) = this"
  by (simp add: handleGetNodeDocumentation_def
        split: sum.splits property.splits)

lemma handleCreateTestWorkflow_server: "snd (handleCreateTestWorkflow this args rid) = this"
  by (simp add: handleCreateTestWorkflow_def Let_def
        split: sum.splits property.splits workflow.splits)

lemma handleValidateWorkflow_server: "snd (handleValidateWorkflow this args rid) = this"
  by (simp add: handleValidateWorkflow_def
        split: option.splits sum.splits prod.splits)

lemma handleGetWorkflowTemplate_server: "snd (handleGetWorkflowTemplate this args rid) = this"
  by (simp add: handleGetWorkflowTemplate_def
        split: sum.splits property.splits template.splits)

lemma handleToolsCall_server: "snd (handleToolsCall this params rid) = this"
  by (simp add: handleToolsCall_def Let_def sendMessage_server handleListNodes_server
        handleGetNodeInfo_server handleSearchNodes_server handleGetNodeDocumentation_server
        handleListNodeCategories_server handleCreateTestWorkflow_server
        handleValidateWorkflow_server handleGetWorkflowTemplate_server)

lemma handleRequest_server: "snd (handleRequest this request) = this"
  by (simp add: handleRequest_def Let_def sendMessage_server handleInitialize_server
        handleToolsList_server handleToolsCall_server handleResourcesList_server
        handlePromptsList_server split: option.splits)

lemma on_line_server: "fst (on_line server line) = server"
proof (cases line)
  case (Inl e)
  then show ?thesis by (simp add: on_line_def)
next
  case (Inr request)
  obtain r s where h: "handleRequest server request = (r, s)"
    by (cases "handleRequest server request")
  then have "s = server" using handleRequest_server[of server request] by simp
  then show ?thesis using Inr h by (cases r) (simp_all add: on_line_def)
qed

lemma run_server: "fst (run server lines) = server"
proof (induction lines arbitrary: server)
  case Nil
  show ?case by simp
next
  case (Cons line rest)
  obtain s out where a: "on_line server line = (s, out)" by (cases "on_line server line")
  obtain s' out' where b: "run s rest = (s', out')" by (cases "run s rest")
  have "s = server" using on_line_server[of server line] a by simp
  moreover have "s' = s" using Cons[of s] b by simp
  ultimately show ?case using a b by simp
qed

subsection \<open>The envelope check\<close>

text \<open>
  Claim C1. A message, that is a parsed value other than \<^verbatim>\<open>null\<close>, whose \<^verbatim>\<open>jsonrpc\<close>
  field is missing or is not the string \<^verbatim>\<open>2.0\<close> is answered with exactly the error
  object of code -32600, message \<^verbatim>\<open>Invalid Request\<close> and \<^verbatim>\<open>id\<close> \<^verbatim>\<open>null\<close>, whatever its
  method, parameters and \<^verbatim>\<open>id\<close> are: by the stdio dispatcher as its only message, and by
  the HTTP dispatcher with status 400.
\<close>

theorem invalid_envelope_rejected:
  assumes "request \<noteq> JNull" and "get request ''jsonrpc'' \<noteq> Some (JStr ''2.0'')"
  shows "handleRequest this request =
           (Inr [JObj [(''jsonrpc'', JStr ''2.0''),
                      (''error'', JObj [(''code'', JNum ''-32600''),
                                        (''message'', JStr ''Invalid Request'')]),
                      (''id'', JNull)]], this)
         \<and> handleMCPRequest server (req\<lparr>req_body := Some request\<rparr>) =
           Inr (Response 400
                  (Some (JObj [(''jsonrpc'', JStr ''2.0''),
                               (''error'', JObj [(''code'', JNum ''-32600''),
                                                 (''message'', JStr ''Invalid Request'')]),
                               (''id'', JNull)])))"
  using assms
  by (simp add: handleRequest_def handleMCPRequest_def destructurable_Some error_message_def)

theorem invalid_envelope_rejected_witness:
  "handleRequest new_MCPServer (JObj [(''method'', JStr ''tools/list''), (''id'', JNum ''1'')]) =
     (Inr [JObj [(''jsonrpc'', JStr ''2.0''),
                (''error'', JObj [(''code'', JNum ''-32600''),
                                  (''message'', JStr ''Invalid Request'')]),
                (''id'', JNull)]], new_MCPServer)
   \<and> handleMCPRequest mcpServer
       \<lparr>req_method = ''POST'', req_url = ''/'', req_authorization = None,
        req_body = Some (JObj [(''method'', JStr ''tools/list''), (''id'', JNum ''1'')])\<rparr> =
     Inr (Response 400
            (Some (JObj [(''jsonrpc'', JStr ''2.0''),
                         (''error'', JObj [(''code'', JNum ''-32600''),
                                           (''message'', JStr ''Invalid Request'')]),
                         (''id'', JNull)])))"
  using invalid_envelope_rejected
    [where request = "JObj [(''method'', JStr ''tools/list''), (''id'', JNum ''1'')]"
       and this = new_MCPServer and server = mcpServer
       and req = "\<lparr>req_method = ''POST'', req_url = ''/'', req_authorization = None,
                   req_body = None\<rparr>"]
  by simp

subsection \<open>Notifications\<close>

text \<open>
  Claim C2, as the code has it. A message with the \<^verbatim>\<open>jsonrpc\<close> field \<^verbatim>\<open>2.0\<close> and no
  \<^verbatim>\<open>id\<close> gets no response from the stdio server, whatever its method and parameters
  are: the dispatcher sends nothing, and the main loop writes nothing for the line.
\<close>

theorem notification_gets_no_response:
  assumes "get request ''jsonrpc'' = Some (JStr ''2.0'')" and "get request ''id'' = None"
  shows "handleRequest this request = (Inr [], this) \<and> on_line this (Inr request) = (this, [])"
proof -
  from assms(1) have "request \<noteq> JNull" by auto
  then have "handleRequest this request = (Inr [], this)"
    using assms by (simp add: handleRequest_def destructurable_Some)
  then show ?thesis by (simp add: on_line_def)
qed

theorem notification_gets_no_response_witness:
  "handleRequest new_MCPServer
     (JObj [(''jsonrpc'', JStr ''2.0''), (''method'', JStr ''notifications/initialized'')])
     = (Inr [], new_MCPServer)
   \<and> on_line new_MCPServer
       (Inr (JObj [(''jsonrpc'', JStr ''2.0''), (''method'', JStr ''notifications/initialized'')])) =
     (new_MCPServer, [])"
  using notification_gets_no_response
    [where request = "JObj [(''jsonrpc'', JStr ''2.0''),
                            (''method'', JStr ''notifications/initialized'')]"
       and this = new_MCPServer]
  by simp

text \<open>
  The envelope check comes before the test for a notification: a message without \<^verbatim>\<open>id\<close>
  and without \<^verbatim>\<open>jsonrpc\<close> is answered with the error object of code -32600.
\<close>

theorem notification_counterexample:
  "get (JObj [(''method'', JStr ''notifications/initialized'')]) ''id'' = None
   \<and> handleRequest new_MCPServer (JObj [(''method'', JStr ''notifications/initialized'')]) =
       (Inr [JObj [(''jsonrpc'', JStr ''2.0''),
                  (''error'', JObj [(''code'', JNum ''-32600''),
                                    (''message'', JStr ''Invalid Request'')]),
                  (''id'', JNull)]], new_MCPServer)
   \<and> snd (on_line new_MCPServer (Inr (JObj [(''method'', JStr ''notifications/initialized'')])))
       \<noteq> []"
  by (simp add: handleRequest_def on_line_def error_message_def)

subsection \<open>The tool table\<close>

text \<open>
  Claim C9. No request handler writes to the server object: whatever the request, the
  dispatcher leaves the object, and so its tool table, as it found it. Hence after any
  sequence of input lines, parsable or not and whatever they call, the server object is
  the one the constructor built, with its eight tool descriptors; \<^verbatim>\<open>tools/list\<close>
  answers with that same table, the answer depending on the request's \<^verbatim>\<open>id\<close> alone;
  and what is written for a line does not depend on the lines before it. The other
  tables are not part of the server object: each call builds its own, and the node lists
  that \<^verbatim>\<open>list_nodes\<close> and \<^verbatim>\<open>search_nodes\<close> filter are filtered into new lists.
\<close>

theorem tools_list_constant:
  "tools (snd (handleRequest this request)) = tools this
   \<and> snd (handleRequest this request) = this
   \<and> fst (run new_MCPServer lines) = new_MCPServer
   \<and> length (tools (fst (run new_MCPServer lines))) = 8
   \<and> handleRequest (fst (run new_MCPServer lines))
         (JObj [(''jsonrpc'', JStr ''2.0''), (''method'', JStr ''tools/list''), (''id'', rid)]) =
       (Inr [result_message (JObj [(''tools'', JArr tool_table)]) rid], new_MCPServer)
   \<and> snd (on_line (fst (run new_MCPServer lines)) line) = snd (on_line new_MCPServer line)"
proof -
  have t: "length tool_table = 8" by (simp add: tool_table_def)
  have r: "fst (run new_MCPServer lines) = new_MCPServer" by (rule run_server)
  have l: "handleRequest new_MCPServer
         (JObj [(''jsonrpc'', JStr ''2.0''), (''method'', JStr ''tools/list''), (''id'', rid)]) =
       (Inr [result_message (JObj [(''tools'', JArr tool_table)]) rid], new_MCPServer)"
    by (simp add: handleRequest_def handleToolsList_def new_MCPServer_def)
  show ?thesis
    unfolding r using t l by (simp add: handleRequest_server new_MCPServer_def)
qed

theorem tools_list_constant_witness:
  "snd (handleRequest new_MCPServer
          (JObj [(''jsonrpc'', JStr ''2.0''), (''method'', JStr ''tools/call''),
                 (''params'', JObj [(''name'', JStr ''search_nodes''),
                                    (''arguments'', JObj [(''query'', JStr ''git'')])]),
                 (''id'', JNum ''2'')])) = new_MCPServer
   \<and> fst (run new_MCPServer
          [Inr (JObj [(''jsonrpc'', JStr ''2.0''), (''method'', JStr ''tools/call''),
                      (''params'', JObj [(''name'', JStr ''list_nodes''),
                                         (''arguments'', JObj [(''category'', JStr ''slack'')])]),
                      (''id'', JNum ''1'')]),
           Inl SyntaxError,
           Inr (JObj [(''jsonrpc'', JStr ''2.0''), (''method'', JStr ''tools/call''),
                      (''params'', JObj [(''name'', JStr ''search_nodes''),
                                         (''arguments'', JObj [(''query'', JStr ''git'')])]),
                      (''id'', JNum ''2'')])]) = new_MCPServer
   \<and> handleRequest
         (fst (run new_MCPServer
          [Inr (JObj [(''jsonrpc'', JStr ''2.0''), (''method'', JStr ''tools/call''),
                      (''params'', JObj [(''name'', JStr ''list_nodes''),
                                         (''arguments'', JObj [(''category'', JStr ''slack'')])]),
                      (''id'', JNum ''1'')]),
           Inl SyntaxError,
           Inr (JObj [(''jsonrpc'', JStr ''2.0''), (''method'', JStr ''tools/call''),
                      (''params'', JObj [(''name'', JStr ''search_nodes''),
                                         (''arguments'', JObj [(''query'', JStr ''git'')])]),
                      (''id'', JNum ''2'')])]))
         (JObj [(''jsonrpc'', JStr ''2.0''), (''method'', JStr ''tools/list''), (''id'', JNum ''3'')]) =
       (Inr [result_message (JObj [(''tools'', JArr tool_table)]) (JNum ''3'')], new_MCPServer)"
proof -
  note w = tools_list_constant
    [where this = new_MCPServer
       and request = "JObj [(''jsonrpc'', JStr ''2.0''), (''method'', JStr ''tools/call''),
                 (''params'', JObj [(''name'', JStr ''search_nodes''),
                                    (''arguments'', JObj [(''query'', JStr ''git'')])]),
                 (''id'', JNum ''2'')]"
       and lines = "[Inr (JObj [(''jsonrpc'', JStr ''2.0''), (''method'', JStr ''tools/call''),
                      (''params'', JObj [(''name'', JStr ''list_nodes''),
                                         (''arguments'', JObj [(''category'', JStr ''slack'')])]),
                      (''id'', JNum ''1'')]),
           Inl SyntaxError,
           Inr (JObj [(''jsonrpc'', JStr ''2.0''), (''method'', JStr ''tools/call''),
                      (''params'', JObj [(''name'', JStr ''search_nodes''),
                                         (''arguments'', JObj [(''query'', JStr ''git'')])]),
                      (''id'', JNum ''2'')])]"
       and rid = "JNum ''3''"]
  from w show ?thesis by blast
qed

subsection \<open>Listing nodes\<close>

lemma slack_filter:
  "filter (\<lambda>node. includes_str (toLowerCase node) (toLowerCase ''slack'')) node_names = [''Slack'']"
  by code_simp

text \<open>
  Claim C7. \<^verbatim>\<open>list_nodes\<close> with the category \<^verbatim>\<open>slack\<close> filters the constant list of 35
  node names by case-insensitive substring; exactly the name \<^verbatim>\<open>Slack\<close> matches, and the
  result lists it with the total 1.
\<close>

theorem list_nodes_slack:
  "length node_names = 35
   \<and> filter (\<lambda>node. includes_str (toLowerCase node) (toLowerCase ''slack'')) node_names
       = [''Slack'']
   \<and> {node \<in> set node_names. includes_str (toLowerCase node) (toLowerCase ''slack'')}
       = {''Slack''}
   \<and> handleListNodes this (Some (JObj [(''category'', JStr ''slack'')])) rid =
       (Inr [result_message
              (text_content
                 (''Available n8n nodes in category '' @ [CHR 0x22] @ ''slack'' @ [CHR 0x22]
                  @ '':\<newline>\<newline>Slack\<newline>\<newline>Total: 1 nodes''))
              rid], this)"
proof -
  have a: "length node_names = 35" by (simp add: node_names_def)
  have b: "set (filter (\<lambda>node. includes_str (toLowerCase node) (toLowerCase ''slack'')) node_names)
           = {''Slack''}"
    by (simp only: slack_filter) simp
  have c: "show_nat (Suc 0) = ''1''" by (simp add: show_nat.simps)
  show ?thesis using a b unfolding set_filter
    by (simp add: handleListNodes_def slack_filter dq_def c)
qed

theorem list_nodes_slack_witness:
  "handleRequest new_MCPServer
     (JObj [(''jsonrpc'', JStr ''2.0''), (''method'', JStr ''tools/call''),
            (''params'', JObj [(''name'', JStr ''list_nodes''),
                               (''arguments'', JObj [(''category'', JStr ''slack'')])]),
            (''id'', JNum ''1'')]) =
   (Inr [JObj [(''jsonrpc'', JStr ''2.0''),
              (''result'',
                 JObj [(''content'',
                   JArr [JObj [(''type'', JStr ''text''),
                               (''text'',
                                  JStr (''Available n8n nodes in category '' @ [CHR 0x22]
                                        @ ''slack'' @ [CHR 0x22]
                                        @ '':\<newline>\<newline>Slack\<newline>\<newline>Total: 1 nodes''))]])]),
              (''id'', JNum ''1'')]], new_MCPServer)"
  using list_nodes_slack[where this = new_MCPServer and rid = "JNum ''1''"]
  by (simp add: handleRequest_def handleToolsCall_def result_message_def text_content_def)

subsection \<open>Workflow validation\<close>

text \<open>
  Claim C3. \<^verbatim>\<open>validate_workflow\<close> on the workflow \<^verbatim>\<open>{name: "x", nodes: [], connections: {}}\<close>
  finds no error and no warning; the status it reports is \<^verbatim>\<open>VALID\<close> and the summary
  counts zero errors.
\<close>

theorem validate_empty_workflow:
  "validate (JObj [(''name'', JStr ''x''), (''nodes'', JArr []), (''connections'', JObj [])])
     = Inr ([], [])
   \<and> status_of [] = ''VALID''
   \<and> summary (JObj [(''name'', JStr ''x''), (''nodes'', JArr []), (''connections'', JObj [])]) [] []
     = JObj [(''status'', JStr ''VALID''), (''errors'', JNum ''0''), (''warnings'', JNum ''0''),
             (''nodes'', JNum ''0''), (''connections'', JNum ''0'')]
   \<and> handleValidateWorkflow this
       (Some (JObj [(''workflow'',
                     JObj [(''name'', JStr ''x''), (''nodes'', JArr []), (''connections'', JObj [])])]))
       rid
     = (Inr [result_message
              (text_content
                 (''## Workflow Validation Results\<newline>'' @
                 ''\<newline>'' @
                 ''**Status:** VALID\<newline>'' @
                 ''**Summary:** {\<newline>'' @
                 ''  '' @ [CHR 0x22] @ ''status'' @ [CHR 0x22] @ '': '' @ [CHR 0x22] @ ''VALID'' @ [CHR 0x22] @ '',\<newline>'' @
                 ''  '' @ [CHR 0x22] @ ''errors'' @ [CHR 0x22] @ '': 0,\<newline>'' @
                 ''  '' @ [CHR 0x22] @ ''warnings'' @ [CHR 0x22] @ '': 0,\<newline>'' @
                 ''  '' @ [CHR 0x22] @ ''nodes'' @ [CHR 0x22] @ '': 0,\<newline>'' @
                 ''  '' @ [CHR 0x22] @ ''connections'' @ [CHR 0x22] @ '': 0\<newline>'' @
                 ''}\<newline>'' @
                 ''\<newline>'' @
                 ''**Recommendations:**\<newline>'' @
                 ''- '' @ [CHR 0xC3, CHR 0xA2, CHR 0xC5, CHR 0x93, CHR 0xE2, CHR 0x80, CHR 0xA6] @ '' Workflow structure is valid\<newline>'' @
                 ''- '' @ [CHR 0xC3, CHR 0xB0, CHR 0xC5, CHR 0xB8, CHR 0xC2, CHR 0xA7, CHR 0xC2, CHR 0xAA] @ '' Ready for testing in n8n\<newline>'' @
                 ''- '' @ [CHR 0xC3, CHR 0xB0, CHR 0xC5, CHR 0xB8, CHR 0xE2, CHR 0x80, CHR 0x9C] @ '' Consider adding error handling nodes''))
              rid], this)"
proof -
  have z: "show_nat 0 = ''0''" by (simp add: show_nat.simps)
  have v: "validate (JObj [(''name'', JStr ''x''), (''nodes'', JArr []), (''connections'', JObj [])])
     = Inr ([], [])"
    by (simp add: validate_def)
  show ?thesis
    by (simp add: v handleValidateWorkflow_def validation_text_def summary_def status_of_def z
          quote_def escape_char_def dq_def)
qed

theorem validate_empty_workflow_witness:
  "handleRequest new_MCPServer
     (JObj [(''jsonrpc'', JStr ''2.0''), (''method'', JStr ''tools/call''),
            (''params'',
               JObj [(''name'', JStr ''validate_workflow''),
                     (''arguments'',
                        JObj [(''workflow'',
                               JObj [(''name'', JStr ''x''), (''nodes'', JArr []),
                                     (''connections'', JObj [])])])]),
            (''id'', JNum ''7'')])
     = (Inr [result_message
              (text_content
                 (''## Workflow Validation Results\<newline>'' @
                 ''\<newline>'' @
                 ''**Status:** VALID\<newline>'' @
                 ''**Summary:** {\<newline>'' @
                 ''  '' @ [CHR 0x22] @ ''status'' @ [CHR 0x22] @ '': '' @ [CHR 0x22] @ ''VALID'' @ [CHR 0x22] @ '',\<newline>'' @
                 ''  '' @ [CHR 0x22] @ ''errors'' @ [CHR 0x22] @ '': 0,\<newline>'' @
                 ''  '' @ [CHR 0x22] @ ''warnings'' @ [CHR 0x22] @ '': 0,\<newline>'' @
                 ''  '' @ [CHR 0x22] @ ''nodes'' @ [CHR 0x22] @ '': 0,\<newline>'' @
                 ''  '' @ [CHR 0x22] @ ''connections'' @ [CHR 0x22] @ '': 0\<newline>'' @
                 ''}\<newline>'' @
                 ''\<newline>'' @
                 ''**Recommendations:**\<newline>'' @
                 ''- '' @ [CHR 0xC3, CHR 0xA2, CHR 0xC5, CHR 0x93, CHR 0xE2, CHR 0x80, CHR 0xA6] @ '' Workflow structure is valid\<newline>'' @
                 ''- '' @ [CHR 0xC3, CHR 0xB0, CHR 0xC5, CHR 0xB8, CHR 0xC2, CHR 0xA7, CHR 0xC2, CHR 0xAA] @ '' Ready for testing in n8n\<newline>'' @
                 ''- '' @ [CHR 0xC3, CHR 0xB0, CHR 0xC5, CHR 0xB8, CHR 0xE2, CHR 0x80, CHR 0x9C] @ '' Consider adding error handling nodes''))
              (JNum ''7'')], new_MCPServer)"
  using validate_empty_workflow[where this = new_MCPServer and rid = "JNum ''7''"]
  by (simp add: handleRequest_def handleToolsCall_def)

text \<open>
  What the loops do to the two lists: they only append, and the warnings appended are
  those of the nodes without a truthy \<^verbatim>\<open>typeVersion\<close>, in order.
\<close>

lemma startsWith_append: "startsWith (p @ s) p"
  by (induction p) simp_all

lemma startsWith_append2: "startsWith (p @ q @ s) (p @ q)"
  using startsWith_append[of "p @ q" s] by simp

lemma check_node_acc:
  assumes "check_node i node (es, ws) = Inr (es', ws')"
  shows "(\<exists>new. es' = es @ new)
         \<and> ws' = ws @ (if \<not> truthy_opt (get node ''typeVersion'')
                       then [''Node '' @ show_nat i @ '': Missing typeVersion (recommended)'']
                       else [])"
  using assms by (auto simp: check_node_def Let_def split: if_splits)

lemma forEach_node_acc:
  "forEach_node i nodes (es, ws) = Inr (es', ws') \<Longrightarrow>
     (\<exists>new. es' = es @ new)
     \<and> ws' = ws @ map (\<lambda>(index, node). ''Node '' @ show_nat index
                                          @ '': Missing typeVersion (recommended)'')
                    (filter (\<lambda>(index, node). \<not> truthy_opt (get node ''typeVersion''))
                       (enumerate i nodes))"
proof (induction nodes arbitrary: i es ws)
  case Nil
  then show ?case by simp
next
  case (Cons node rest)
  from Cons.prems obtain es1 ws1 where
    one: "check_node i node (es, ws) = Inr (es1, ws1)" and
    more: "forEach_node (Suc i) rest (es1, ws1) = Inr (es', ws')"
    by (auto split: sum.splits)
  from check_node_acc[OF one] obtain new1 where
    e1: "es1 = es @ new1" and
    w1: "ws1 = ws @ (if \<not> truthy_opt (get node ''typeVersion'')
                     then [''Node '' @ show_nat i @ '': Missing typeVersion (recommended)'']
                     else [])"
    by blast
  from Cons.IH[OF more] obtain new2 where
    e2: "es' = es1 @ new2" and
    w2: "ws' = ws1 @ map (\<lambda>(index, node). ''Node '' @ show_nat index
                                          @ '': Missing typeVersion (recommended)'')
                    (filter (\<lambda>(index, node). \<not> truthy_opt (get node ''typeVersion''))
                       (enumerate (Suc i) rest))"
    by blast
  have "es' = es @ (new1 @ new2)" using e1 e2 by simp
  then show ?case using w1 w2 by auto
qed

lemma forEach_connection_acc: "\<exists>new. forEach_connection kvs es = es @ new"
proof (induction kvs arbitrary: es)
  case Nil
  show ?case by simp
next
  case (Cons kv rest)
  obtain k v where kv: "kv = (k, v)" by (cases kv)
  show ?case
  proof (cases "typeof_object v")
    case True
    then show ?thesis using Cons[of es] kv by simp
  next
    case False
    from Cons[of "es @ [''Invalid connections for node: '' @ k]"] obtain new where
      "forEach_connection rest (es @ [''Invalid connections for node: '' @ k])
         = (es @ [''Invalid connections for node: '' @ k]) @ new"
      by blast
    then show ?thesis using False kv by simp
  qed
qed

lemma length_filter_enumerate:
  "length (filter (\<lambda>(index, node). P node) (enumerate i xs)) = length (filter P xs)"
  by (induction xs arbitrary: i) simp_all

lemma validate_no_errors:
  assumes "validate workflow = Inr ([], warnings)"
  shows "\<exists>nodes. get workflow ''nodes'' = Some (JArr nodes)
           \<and> warnings = map (\<lambda>(index, node). ''Node '' @ show_nat index
                                           @ '': Missing typeVersion (recommended)'')
                     (filter (\<lambda>(index, node). \<not> truthy_opt (get node ''typeVersion''))
                        (enumerate 0 nodes))"
proof -
  define es0 where "es0 =
    (let errors = [];
         errors = (if \<not> truthy_opt (get workflow ''name'')
                   then errors @ [''Missing workflow name''] else errors);
         errors = (if \<not> truthy_opt (get workflow ''nodes'') \<or> \<not> isArray (get workflow ''nodes'')
                   then errors @ [''Missing or invalid nodes array''] else errors);
         errors = (if \<not> truthy_opt (get workflow ''connections'')
                      \<or> \<not> typeof_object (or_else (get workflow ''connections'') JNull)
                   then errors @ [''Missing or invalid connections object''] else errors)
     in errors)"
  define loop where "loop =
    (if truthy_opt (get workflow ''nodes'') then
       (case get workflow ''nodes'' of
          Some (JArr nodes) \<Rightarrow> forEach_node 0 nodes (es0, [])
        | _ \<Rightarrow> Inl TypeError)
     else Inr (es0, []))"
  have v: "validate workflow =
     (case loop of
        Inl e \<Rightarrow> Inl e
      | Inr acc \<Rightarrow>
          Inr (if truthy_opt (get workflow ''connections'')
               then forEach_connection (entries (or_else (get workflow ''connections'') JNull))
                      (fst acc)
               else fst acc,
               snd acc))"
    by (simp only: validate_def es0_def loop_def Let_def)
  from assms v have "\<exists>es1. loop = Inr (es1, warnings)
      \<and> (if truthy_opt (get workflow ''connections'')
           then forEach_connection (entries (or_else (get workflow ''connections'') JNull)) es1
           else es1) = []"
    by (cases loop; cases "truthy_opt (get workflow ''connections'')") auto
  then obtain es1 where
    l: "loop = Inr (es1, warnings)" and
    c: "(if truthy_opt (get workflow ''connections'')
         then forEach_connection (entries (or_else (get workflow ''connections'') JNull)) es1
         else es1) = []"
    by blast
  have "es1 = []"
    using c forEach_connection_acc[of "entries (or_else (get workflow ''connections'') JNull)" es1]
    by (auto split: if_splits)
  have arr: "isArray (get workflow ''nodes'')"
  proof (rule ccontr)
    assume n: "\<not> isArray (get workflow ''nodes'')"
    then have "es0 \<noteq> []" by (simp add: es0_def Let_def)
    have "\<exists>new. es1 = es0 @ new"
    proof (cases "truthy_opt (get workflow ''nodes'')")
      case True
      with n l show ?thesis
        by (cases "get workflow ''nodes''"; cases "the (get workflow ''nodes'')")
           (auto simp: loop_def)
    next
      case False
      with l show ?thesis by (simp add: loop_def)
    qed
    with \<open>es1 = []\<close> \<open>es0 \<noteq> []\<close> show False by simp
  qed
  then obtain nodes where nodes: "get workflow ''nodes'' = Some (JArr nodes)"
    by (cases "get workflow ''nodes''"; cases "the (get workflow ''nodes'')") auto
  with l have "forEach_node 0 nodes (es0, []) = Inr (es1, warnings)"
    by (simp add: loop_def)
  from forEach_node_acc[OF this] nodes show ?thesis by simp
qed

text \<open>
  Claim C10. When the validation of a workflow runs to its end, the status reported is
  \<^verbatim>\<open>VALID\<close> if and only if the list of errors is empty; the warnings have no part in
  it. So when no error check fires, the nodes are an array, every node without a truthy
  \<^verbatim>\<open>typeVersion\<close> contributes exactly one warning, and the status is \<^verbatim>\<open>VALID\<close>.
\<close>

theorem status_valid_iff_no_errors:
  assumes "truthy workflow" and "validate workflow = Inr (errors, warnings)"
  shows "handleValidateWorkflow this (Some (JObj [(''workflow'', workflow)])) rid
           = (Inr [result_message (text_content (validation_text workflow errors warnings)) rid],
              this)
         \<and> (status_of errors = ''VALID'' \<longleftrightarrow> errors = [])
         \<and> get (summary workflow errors warnings) ''status'' = Some (JStr (status_of errors))
         \<and> startsWith (validation_text workflow errors warnings)
              (''## Workflow Validation Results\<newline>\<newline>**Status:** '' @ status_of errors)
         \<and> (errors = [] \<longrightarrow>
              (\<exists>nodes. get workflow ''nodes'' = Some (JArr nodes)
                 \<and> warnings = map (\<lambda>(index, node). ''Node '' @ show_nat index
                                                 @ '': Missing typeVersion (recommended)'')
                           (filter (\<lambda>(index, node). \<not> truthy_opt (get node ''typeVersion''))
                              (enumerate 0 nodes))
                 \<and> length warnings
                     = length (filter (\<lambda>node. \<not> truthy_opt (get node ''typeVersion'')) nodes)))"
proof -
  have a: "handleValidateWorkflow this (Some (JObj [(''workflow'', workflow)])) rid
           = (Inr [result_message (text_content (validation_text workflow errors warnings)) rid],
              this)"
    using assms by (simp add: handleValidateWorkflow_def)
  have b: "status_of errors = ''VALID'' \<longleftrightarrow> errors = []"
    by (simp add: status_of_def)
  have c: "get (summary workflow errors warnings) ''status'' = Some (JStr (status_of errors))"
    by (simp add: summary_def)
  have d: "startsWith (validation_text workflow errors warnings)
              (''## Workflow Validation Results\<newline>\<newline>**Status:** '' @ status_of errors)"
    unfolding validation_text_def by (rule startsWith_append2)
  have e: "errors = [] \<longrightarrow>
              (\<exists>nodes. get workflow ''nodes'' = Some (JArr nodes)
                 \<and> warnings = map (\<lambda>(index, node). ''Node '' @ show_nat index
                                                 @ '': Missing typeVersion (recommended)'')
                           (filter (\<lambda>(index, node). \<not> truthy_opt (get node ''typeVersion''))
                              (enumerate 0 nodes))
                 \<and> length warnings
                     = length (filter (\<lambda>node. \<not> truthy_opt (get node ''typeVersion'')) nodes))"
  proof
    assume "errors = []"
    with assms(2) have "validate workflow = Inr ([], warnings)" by simp
    from validate_no_errors[OF this] obtain nodes where
      n: "get workflow ''nodes'' = Some (JArr nodes)" and
      w: "warnings = map (\<lambda>(index, node). ''Node '' @ show_nat index
                                                 @ '': Missing typeVersion (recommended)'')
                           (filter (\<lambda>(index, node). \<not> truthy_opt (get node ''typeVersion''))
                              (enumerate 0 nodes))"
      by blast
    have "length warnings
            = length (filter (\<lambda>node. \<not> truthy_opt (get node ''typeVersion'')) nodes)"
      unfolding w length_map by (rule length_filter_enumerate)
    with n w show "\<exists>nodes. get workflow ''nodes'' = Some (JArr nodes)
                 \<and> warnings = map (\<lambda>(index, node). ''Node '' @ show_nat index
                                                 @ '': Missing typeVersion (recommended)'')
                           (filter (\<lambda>(index, node). \<not> truthy_opt (get node ''typeVersion''))
                              (enumerate 0 nodes))
                 \<and> length warnings
                     = length (filter (\<lambda>node. \<not> truthy_opt (get node ''typeVersion'')) nodes)"
      by blast
  qed
  from a b c d e show ?thesis by blast
qed

theorem status_valid_iff_no_errors_witness:
  "validate (JObj [(''name'', JStr ''x''),
                   (''nodes'',
                      JArr [JObj [(''id'', JStr ''a''), (''name'', JStr ''A''), (''type'', JStr ''t''),
                                  (''position'', JArr [JNum ''0'', JNum ''0''])],
                            JObj [(''id'', JStr ''b''), (''name'', JStr ''B''), (''type'', JStr ''t''),
                                  (''position'', JArr [JNum ''1'', JNum ''1'']),
                                  (''typeVersion'', JNum ''1'')]]),
                   (''connections'', JObj [])])
     = Inr ([], [''Node 0: Missing typeVersion (recommended)''])
   \<and> handleValidateWorkflow new_MCPServer
       (Some (JObj [(''workflow'',
          JObj [(''name'', JStr ''x''),
                (''nodes'',
                   JArr [JObj [(''id'', JStr ''a''), (''name'', JStr ''A''), (''type'', JStr ''t''),
                               (''position'', JArr [JNum ''0'', JNum ''0''])],
                         JObj [(''id'', JStr ''b''), (''name'', JStr ''B''), (''type'', JStr ''t''),
                               (''position'', JArr [JNum ''1'', JNum ''1'']),
                               (''typeVersion'', JNum ''1'')]]),
                (''connections'', JObj [])])]))
       (JNum ''1'')
     = (Inr [result_message
              (text_content
                 (validation_text
                    (JObj [(''name'', JStr ''x''),
                           (''nodes'',
                              JArr [JObj [(''id'', JStr ''a''), (''name'', JStr ''A''),
                                          (''type'', JStr ''t''),
                                          (''position'', JArr [JNum ''0'', JNum ''0''])],
                                    JObj [(''id'', JStr ''b''), (''name'', JStr ''B''),
                                          (''type'', JStr ''t''),
                                          (''position'', JArr [JNum ''1'', JNum ''1'']),
                                          (''typeVersion'', JNum ''1'')]]),
                           (''connections'', JObj [])])
                    [] [''Node 0: Missing typeVersion (recommended)'']))
              (JNum ''1'')], new_MCPServer)
   \<and> status_of [] = ''VALID''"
proof -
  let ?w = "JObj [(''name'', JStr ''x''),
                   (''nodes'',
                      JArr [JObj [(''id'', JStr ''a''), (''name'', JStr ''A''), (''type'', JStr ''t''),
                                  (''position'', JArr [JNum ''0'', JNum ''0''])],
                            JObj [(''id'', JStr ''b''), (''name'', JStr ''B''), (''type'', JStr ''t''),
                                  (''position'', JArr [JNum ''1'', JNum ''1'']),
                                  (''typeVersion'', JNum ''1'')]]),
                   (''connections'', JObj [])]"
  have t: "truthy ?w" by simp
  have z: "show_nat 0 = ''0''" by (simp add: show_nat.simps)
  have v: "validate ?w = Inr ([], [''Node 0: Missing typeVersion (recommended)''])"
    by (simp add: validate_def check_node_def z)
  note r = status_valid_iff_no_errors[OF t v, where this = new_MCPServer and rid = "JNum ''1''"]
  from r have b: "status_of [] = ''VALID''" by blast
  show ?thesis by (intro conjI) (rule v, rule conjunct1[OF r], rule b)
qed

text \<open>
  A workflow whose \<^verbatim>\<open>nodes\<close> is absent or falsy is reported \<^verbatim>\<open>INVALID\<close>, with the error
  about the nodes array among its errors.
\<close>

lemma validate_missing_nodes:
  assumes "\<not> truthy_opt (get workflow ''nodes'')"
  shows "\<exists>errors. validate workflow = Inr (errors, [])
           \<and> ''Missing or invalid nodes array'' \<in> set errors
           \<and> status_of errors = ''INVALID''"
proof -
  define es0 where "es0 =
    (if \<not> truthy_opt (get workflow ''name'') then [''Missing workflow name''] else [])
    @ [''Missing or invalid nodes array'']
    @ (if \<not> truthy_opt (get workflow ''connections'')
          \<or> \<not> typeof_object (or_else (get workflow ''connections'') JNull)
       then [''Missing or invalid connections object''] else [])"
  define es where "es =
    (if truthy_opt (get workflow ''connections'')
     then forEach_connection (entries (or_else (get workflow ''connections'') JNull)) es0
     else es0)"
  have v: "validate workflow = Inr (es, [])"
    using assms by (simp add: validate_def es_def es0_def Let_def)
  have "\<exists>new. es = es0 @ new"
    using forEach_connection_acc[of "entries (or_else (get workflow ''connections'') JNull)" es0]
    by (simp add: es_def)
  then obtain new where n: "es = es0 @ new" by blast
  have "''Missing or invalid nodes array'' \<in> set es" unfolding n es0_def by simp
  moreover from this have "status_of es = ''INVALID''"
    by (auto simp: status_of_def)
  ultimately show ?thesis using v by blast
qed

text \<open>
  Claim C4, where the code departs from it. A workflow whose \<^verbatim>\<open>nodes\<close> is truthy and
  not an array (a non-empty string, a non-zero number, \<^verbatim>\<open>true\<close>, an object) gets no
  result at all: the error about the nodes array is recorded, then the loop over the
  nodes, guarded by truthiness alone, calls \<^verbatim>\<open>forEach\<close> on a value that has none and
  throws; the main loop catches the exception and writes no response.
\<close>

theorem nodes_not_array_throws:
  assumes "truthy workflow" and "get workflow ''nodes'' = Some nodes"
    and "truthy nodes" and "\<not> isArray (Some nodes)"
  shows "validate workflow = Inl TypeError
         \<and> handleValidateWorkflow this (Some (JObj [(''workflow'', workflow)])) rid
             = (Inl TypeError, this)
         \<and> on_line server
             (Inr (JObj [(''jsonrpc'', JStr ''2.0''), (''method'', JStr ''tools/call''),
                         (''params'',
                            JObj [(''name'', JStr ''validate_workflow''),
                                  (''arguments'', JObj [(''workflow'', workflow)])]),
                         (''id'', rid)]))
           = (server, [])"
proof -
  have v: "validate workflow = Inl TypeError"
    using assms(2-4) by (cases nodes) (simp_all add: validate_def Let_def)
  then have h: "handleValidateWorkflow s (Some (JObj [(''workflow'', workflow)])) rid
                  = (Inl TypeError, s)" for s
    using assms(1) by (simp add: handleValidateWorkflow_def)
  show ?thesis using v h[of this] h[of server]
    by (simp add: on_line_def handleRequest_def handleToolsCall_def)
qed

theorem nodes_not_array_throws_witness:
  "handleValidateWorkflow new_MCPServer
     (Some (JObj [(''workflow'',
                   JObj [(''name'', JStr ''x''), (''nodes'', JStr ''abc''),
                         (''connections'', JObj [])])]))
     (JNum ''1'')
     = (Inl TypeError, new_MCPServer)
   \<and> on_line new_MCPServer
       (Inr (JObj [(''jsonrpc'', JStr ''2.0''), (''method'', JStr ''tools/call''),
                   (''params'',
                      JObj [(''name'', JStr ''validate_workflow''),
                            (''arguments'',
                               JObj [(''workflow'',
                                      JObj [(''name'', JStr ''x''), (''nodes'', JStr ''abc''),
                                            (''connections'', JObj [])])])]),
                   (''id'', JNum ''1'')]))
     = (new_MCPServer, [])"
  using nodes_not_array_throws
    [where workflow = "JObj [(''name'', JStr ''x''), (''nodes'', JStr ''abc''),
                             (''connections'', JObj [])]"
       and nodes = "JStr ''abc''" and rid = "JNum ''1''" and this = new_MCPServer
       and server = new_MCPServer]
  by simp

subsection \<open>Unknown keys\<close>

text \<open>
  A key that is neither in a table nor inherited from \<^verbatim>\<open>Object.prototype\<close> is not
  found.
\<close>

lemma includes_str_append: "includes_str (p @ t) t"
proof (induction p)
  case Nil
  have "startsWith t t" using startsWith_append[of t "[]"] by simp
  then show ?case by (cases t) simp_all
next
  case (Cons c p)
  then show ?case by simp
qed

lemma workflows_keys:
  "map fst (workflows customName) =
     [''webhook_to_slack'', ''manual_to_http'', ''schedule_to_email'', ''ai_agent'',
      ''data_processing'']"
  by (simp add: workflows_def)

lemma lookup_Undefined:
  assumes "k \<notin> set (map fst table)" and "k \<notin> set (map fst Object_prototype)"
  shows "lookup table k = Undefined"
proof -
  have "map_of table k = None" using assms(1) by (simp add: map_of_eq_None_iff)
  moreover have "map_of Object_prototype k = None"
    using assms(2) by (simp add: map_of_eq_None_iff)
  ultimately show ?thesis by (simp add: lookup_def)
qed

text \<open>
  Claim C5, as the code has it. \<^verbatim>\<open>create_test_workflow\<close> with a \<^verbatim>\<open>workflowType\<close> that is
  a non-empty string, none of the five known types and not the name of a property every
  object inherits, returns the error of code -32602 whose message is
  \<^verbatim>\<open>Unknown workflow type: \<close> followed by that string. The type \<^verbatim>\<open>unknown_type\<close> is
  such a string.
\<close>

theorem unknown_workflow_type_error:
  assumes "get_opt args ''workflowType'' = Some (JStr t)" and "t \<noteq> []"
    and "t \<notin> set [''webhook_to_slack'', ''manual_to_http'', ''schedule_to_email'', ''ai_agent'',
                    ''data_processing'']"
    and "t \<notin> set (map fst Object_prototype)"
  shows "handleCreateTestWorkflow this args rid =
           (Inr [JObj [(''jsonrpc'', JStr ''2.0''),
                      (''error'', JObj [(''code'', JNum ''-32602''),
                                        (''message'', JStr (''Unknown workflow type: '' @ t))]),
                      (''id'', rid)]], this)
         \<and> includes_str (''Unknown workflow type: '' @ t) t"
proof -
  have "lookup (workflows customName) t = Undefined" for customName
    using assms(3,4) by (intro lookup_Undefined) (simp_all add: workflows_keys)
  then have "handleCreateTestWorkflow this args rid =
           (Inr [JObj [(''jsonrpc'', JStr ''2.0''),
                      (''error'', JObj [(''code'', JNum ''-32602''),
                                        (''message'', JStr (''Unknown workflow type: '' @ t))]),
                      (''id'', rid)]], this)"
    using assms(1,2) by (simp add: handleCreateTestWorkflow_def error_message_def)
  then show ?thesis using includes_str_append by blast
qed

theorem unknown_workflow_type_error_witness:
  "handleCreateTestWorkflow new_MCPServer
     (Some (JObj [(''workflowType'', JStr ''unknown_type'')])) (JNum ''1'') =
     (Inr [JObj [(''jsonrpc'', JStr ''2.0''),
                (''error'', JObj [(''code'', JNum ''-32602''),
                                  (''message'', JStr ''Unknown workflow type: unknown_type'')]),
                (''id'', JNum ''1'')]], new_MCPServer)"
  using unknown_workflow_type_error
    [where args = "Some (JObj [(''workflowType'', JStr ''unknown_type'')])"
       and t = "''unknown_type''" and rid = "JNum ''1''" and this = new_MCPServer]
  by (simp add: Object_prototype_def)

text \<open>
  The empty string is not one of the five types, and it is falsy: the default
  \<^verbatim>\<open>webhook_to_slack\<close> takes its place, and the answer is the one message that type
  gets, a result and not an error.
\<close>

theorem empty_workflow_type_counterexample:
  "[] \<notin> set [''webhook_to_slack'', ''manual_to_http'', ''schedule_to_email'', ''ai_agent'',
               ''data_processing'']
   \<and> handleCreateTestWorkflow new_MCPServer (Some (JObj [(''workflowType'', JStr [])]))
       (JNum ''1'')
     = handleCreateTestWorkflow new_MCPServer
         (Some (JObj [(''workflowType'', JStr ''webhook_to_slack'')])) (JNum ''1'')
   \<and> length (sent (fst (handleCreateTestWorkflow new_MCPServer
                              (Some (JObj [(''workflowType'', JStr [])])) (JNum ''1'')))) = 1
   \<and> filter is_error_message
         (sent (fst (handleCreateTestWorkflow new_MCPServer
                      (Some (JObj [(''workflowType'', JStr [])])) (JNum ''1''))))
     = []"
  by (simp add: handleCreateTestWorkflow_def lookup_def workflows_def is_error_message_def
        result_message_def)

text \<open>A name that every object inherits finds a function, and the handler throws.\<close>

lemma inherited_workflow_type_throws:
  "handleCreateTestWorkflow this (Some (JObj [(''workflowType'', JStr ''constructor'')])) rid
     = (Inl TypeError, this)"
  by (simp add: handleCreateTestWorkflow_def lookup_def workflows_def Object_prototype_def)

lemma nodeInfo_keys: "map fst nodeInfo = [''HTTP Request'', ''Function'', ''If'']"
  by (simp add: nodeInfo_def)

lemma handleGetNodeInfo_no_error:
  "filter is_error_message (sent (fst (handleGetNodeInfo this args rid))) = []"
  by (simp add: handleGetNodeInfo_def is_error_message_def result_message_def
        split: sum.splits property.splits)

text \<open>
  Claim C6, as the code has it. \<^verbatim>\<open>get_node_info\<close> with a \<^verbatim>\<open>nodeName\<close> that is a non-empty
  string, not a key of the node table (\<^verbatim>\<open>HTTP Request\<close>, \<^verbatim>\<open>Function\<close>, \<^verbatim>\<open>If\<close>) and not the
  name of a property every object inherits, returns the result with the generic
  description (\<^verbatim>\<open>A powerful n8n node for workflow automation\<close>, category \<^verbatim>\<open>General\<close>)
  under the given name. And whatever its arguments are, the handler never sends an error
  object.
\<close>

theorem unknown_node_gets_fallback:
  assumes "get_opt args ''nodeName'' = Some (JStr n)" and "n \<noteq> []"
    and "n \<notin> set [''HTTP Request'', ''Function'', ''If'']"
    and "n \<notin> set (map fst Object_prototype)"
  shows "handleGetNodeInfo this args rid =
           (Inr [result_message
                  (text_content
                     (''**'' @ n @ '' Node**\<newline>\<newline>''
                      @ ''**Description:** A powerful n8n node for workflow automation\<newline>''
                      @ ''**Category:** General\<newline>''
                      @ ''**Key Properties:** Various configuration options\<newline>''
                      @ ''**Common Use Cases:** Workflow automation, Data processing, Integration''))
                  rid], this)
         \<and> (\<forall>this' args' rid'.
               filter is_error_message (sent (fst (handleGetNodeInfo this' args' rid'))) = [])"
proof -
  have "lookup nodeInfo n = Undefined"
    using assms(3,4) by (intro lookup_Undefined) (simp_all add: nodeInfo_keys)
  then have "handleGetNodeInfo this args rid =
           (Inr [result_message
                  (text_content
                     (''**'' @ n @ '' Node**\<newline>\<newline>''
                      @ ''**Description:** A powerful n8n node for workflow automation\<newline>''
                      @ ''**Category:** General\<newline>''
                      @ ''**Key Properties:** Various configuration options\<newline>''
                      @ ''**Common Use Cases:** Workflow automation, Data processing, Integration''))
                  rid], this)"
    using assms(1,2) by (simp add: handleGetNodeInfo_def fallback_info_def)
  then show ?thesis using handleGetNodeInfo_no_error by blast
qed

theorem unknown_node_gets_fallback_witness:
  "handleGetNodeInfo new_MCPServer (Some (JObj [(''nodeName'', JStr ''Slack'')])) (JNum ''1'') =
     (Inr [result_message
            (text_content
               (''**Slack Node**\<newline>\<newline>''
                @ ''**Description:** A powerful n8n node for workflow automation\<newline>''
                @ ''**Category:** General\<newline>''
                @ ''**Key Properties:** Various configuration options\<newline>''
                @ ''**Common Use Cases:** Workflow automation, Data processing, Integration''))
            (JNum ''1'')], new_MCPServer)"
  using unknown_node_gets_fallback
    [where args = "Some (JObj [(''nodeName'', JStr ''Slack'')])" and n = "''Slack''"
       and rid = "JNum ''1''" and this = new_MCPServer]
  by (simp add: Object_prototype_def)

text \<open>
  The empty string is not a key of the node table, and it is falsy: the default
  \<^verbatim>\<open>HTTP Request\<close> takes its place, and the result describes that node; the generic
  description is not in it.
\<close>

lemma empty_name_text_has_no_fallback:
  "\<not> includes_str
       (''**HTTP Request Node**\<newline>\<newline>''
        @ ''**Description:** Make HTTP requests to external APIs and services\<newline>''
        @ ''**Category:** Core\<newline>''
        @ ''**Key Properties:** URL, Method, Headers, Body, Authentication\<newline>''
        @ ''**Common Use Cases:** GET API data, POST form data, PUT update resource'')
       ''A powerful n8n node for workflow automation''"
  by code_simp

theorem empty_node_name_counterexample:
  "[] \<notin> set [''HTTP Request'', ''Function'', ''If'']
   \<and> handleGetNodeInfo new_MCPServer (Some (JObj [(''nodeName'', JStr [])])) (JNum ''1'') =
     (Inr [result_message
            (text_content
               (''**HTTP Request Node**\<newline>\<newline>''
                @ ''**Description:** Make HTTP requests to external APIs and services\<newline>''
                @ ''**Category:** Core\<newline>''
                @ ''**Key Properties:** URL, Method, Headers, Body, Authentication\<newline>''
                @ ''**Common Use Cases:** GET API data, POST form data, PUT update resource''))
            (JNum ''1'')], new_MCPServer)
   \<and> \<not> includes_str
       (''**HTTP Request Node**\<newline>\<newline>''
        @ ''**Description:** Make HTTP requests to external APIs and services\<newline>''
        @ ''**Category:** Core\<newline>''
        @ ''**Key Properties:** URL, Method, Headers, Body, Authentication\<newline>''
        @ ''**Common Use Cases:** GET API data, POST form data, PUT update resource'')
       ''A powerful n8n node for workflow automation''"
proof -
  have "handleGetNodeInfo new_MCPServer (Some (JObj [(''nodeName'', JStr [])])) (JNum ''1'') =
     (Inr [result_message
            (text_content
               (''**HTTP Request Node**\<newline>\<newline>''
                @ ''**Description:** Make HTTP requests to external APIs and services\<newline>''
                @ ''**Category:** Core\<newline>''
                @ ''**Key Properties:** URL, Method, Headers, Body, Authentication\<newline>''
                @ ''**Common Use Cases:** GET API data, POST form data, PUT update resource''))
            (JNum ''1'')], new_MCPServer)"
    by (simp add: handleGetNodeInfo_def lookup_def nodeInfo_def)
  then show ?thesis using empty_name_text_has_no_fallback by simp
qed

text \<open>A name that every object inherits finds a function, and the handler throws.\<close>

lemma inherited_node_name_throws:
  "handleGetNodeInfo this (Some (JObj [(''nodeName'', JStr ''constructor'')])) rid
     = (Inl TypeError, this)"
  by (simp add: handleGetNodeInfo_def lookup_def nodeInfo_def Object_prototype_def)

subsection \<open>The authentication gate\<close>

lemma validateAuth_fails:
  assumes "req_authorization req = None
           \<or> (\<exists>h. req_authorization req = Some h
                   \<and> (\<not> startsWith h (units ''Bearer '')
                        \<or> Some (trim (drop 7 h)) \<noteq> AUTH_TOKEN env))"
  shows "\<not> validateAuth env req"
  using assms by (auto simp: validateAuth_def Let_def)

text \<open>
  Claim C8, as the code has it. In the HTTP variant a \<^verbatim>\<open>POST\<close> request, to any path,
  whose \<^verbatim>\<open>Authorization\<close> header is absent, or does not start with \<^verbatim>\<open>Bearer \<close>, or
  whose text after these seven characters, with the white space of \<^verbatim>\<open>trim\<close> removed at
  both ends, is not the token of the environment, is answered with status 401 and the
  error object of code -32001. The dispatcher has no part in the answer: it is the same
  for every dispatcher.
\<close>

theorem unauthenticated_post_rejected:
  assumes "req_method req = ''POST''"
    and "req_authorization req = None
         \<or> (\<exists>h. req_authorization req = Some h
                 \<and> (\<not> startsWith h (units ''Bearer '')
                      \<or> Some (trim (drop 7 h)) \<noteq> AUTH_TOKEN env))"
  shows "serve dispatch sys env req =
           Response 401
             (Some (JObj [(''jsonrpc'', JStr ''2.0''),
                          (''error'',
                             JObj [(''code'', JNum ''-32001''),
                                   (''message'', JStr ''Unauthorized - Valid Bearer token required'')]),
                          (''id'', or_else (get_opt (req_body req) ''id'') JNull)]))
         \<and> module_exports sys env req = serve dispatch sys env req"
proof -
  have "\<not> validateAuth env req" using assms(2) by (rule validateAuth_fails)
  then have "serve d sys env req =
           Response 401
             (Some (JObj [(''jsonrpc'', JStr ''2.0''),
                          (''error'',
                             JObj [(''code'', JNum ''-32001''),
                                   (''message'', JStr ''Unauthorized - Valid Bearer token required'')]),
                          (''id'', or_else (get_opt (req_body req) ''id'') JNull)]))" for d
    using assms(1) by (simp add: serve_def error_message_def)
  then show ?thesis by (simp add: module_exports_def)
qed

theorem unauthenticated_post_rejected_witness:
  "module_exports \<lparr>now = ''2026-01-01T00:00:00.000Z'', message_of = (\<lambda>e. ''TypeError'')\<rparr>
     (load \<lparr>N8N_MCP_AUTH_TOKEN = Some (units ''secret''), AUTH_TOKEN = None\<rparr>)
     \<lparr>req_method = ''POST'', req_url = ''/'', req_authorization = None,
      req_body = Some (JObj [(''jsonrpc'', JStr ''2.0''), (''method'', JStr ''tools/list''),
                             (''id'', JNum ''1'')])\<rparr>
   = Response 401
       (Some (JObj [(''jsonrpc'', JStr ''2.0''),
                    (''error'',
                       JObj [(''code'', JNum ''-32001''),
                             (''message'', JStr ''Unauthorized - Valid Bearer token required'')]),
                    (''id'', JNum ''1'')]))"
  using unauthenticated_post_rejected
    [where req = "\<lparr>req_method = ''POST'', req_url = ''/'', req_authorization = None,
          req_body = Some (JObj [(''jsonrpc'', JStr ''2.0''), (''method'', JStr ''tools/list''),
                                 (''id'', JNum ''1'')])\<rparr>"
       and env = "load \<lparr>N8N_MCP_AUTH_TOKEN = Some (units ''secret''), AUTH_TOKEN = None\<rparr>"
       and dispatch = "handleMCPRequest mcpServer"
       and sys = "\<lparr>now = ''2026-01-01T00:00:00.000Z'', message_of = (\<lambda>e. ''TypeError'')\<rparr>"]
  by simp

text \<open>
  The header \<^verbatim>\<open>Bearer  secret\<close>, with two spaces, does not start with \<^verbatim>\<open>Bearer \<close>
  followed by the token \<^verbatim>\<open>secret\<close>; trimming makes it pass, and the dispatcher answers.
\<close>

theorem padded_bearer_token_counterexample:
  "\<not> startsWith (units ''Bearer  secret'') (units ''Bearer '' @ units ''secret'')
   \<and> AUTH_TOKEN (load \<lparr>N8N_MCP_AUTH_TOKEN = Some (units ''secret''), AUTH_TOKEN = None\<rparr>)
       = Some (units ''secret'')
   \<and> module_exports \<lparr>now = ''2026-01-01T00:00:00.000Z'', message_of = (\<lambda>e. ''TypeError'')\<rparr>
       (load \<lparr>N8N_MCP_AUTH_TOKEN = Some (units ''secret''), AUTH_TOKEN = None\<rparr>)
       \<lparr>req_method = ''POST'', req_url = ''/'',
        req_authorization = Some (units ''Bearer  secret''),
        req_body = Some (JObj [(''jsonrpc'', JStr ''2.0''), (''method'', JStr ''prompts/list''),
                               (''id'', JNum ''1'')])\<rparr>
     = Response 200
         (Some (JObj [(''jsonrpc'', JStr ''2.0''), (''result'', JObj [(''prompts'', JArr [])]),
                      (''id'', JNum ''1'')]))"
  by (simp add: module_exports_def serve_def validateAuth_def trim_def is_space_def load_def
        units_def handleMCPRequest_def result_message_def)

text \<open>
  So does a no-break space (U+00A0) before the token, which \<^verbatim>\<open>trim\<close> removes like the
  space.
\<close>

lemma no_break_space_is_trimmed:
  "validateAuth \<lparr>N8N_MCP_AUTH_TOKEN = None, AUTH_TOKEN = Some (units ''secret'')\<rparr>
     \<lparr>req_method = ''POST'', req_url = ''/'',
      req_authorization = Some (units ''Bearer '' @ [0xA0] @ units ''secret''),
      req_body = None\<rparr>"
  by (simp add: validateAuth_def trim_def is_space_def units_def)

end
